theory Spec2Isabelle
  imports Main "HOL-Library.Sublist"
begin

section \<open>Volume records\<close>

text \<open>
  The driver of \<^verbatim>\<open>cinder/volume/drivers/dmclone/driver.py\<close> works on volume objects.
  The fields the driver reads or writes are the fields of the record below; \<^verbatim>\<open>None\<close>
  is \<open>None\<close>. The field \<^verbatim>\<open>id\<close> is \<open>vol_id\<close> and \<^verbatim>\<open>size\<close> is \<open>vol_size\<close>.
\<close>

record volume =
  vol_id :: string
  name_id :: string
  host :: "string option"
  cluster_name :: "string option"
  availability_zone :: "string option"
  provider_id :: "string option"
  provider_location :: "string option"
  provider_auth :: "string option"
  provider_geometry :: "string option"
  status :: string
  migration_status :: "string option"
  attach_status :: string
  vol_size :: int
  user_id :: string
  project_id :: string
  use_quota :: bool
  display_description :: "string option"

text \<open>The placement fields that \<^verbatim>\<open>_switch_volumes\<close> walks through by name.\<close>

datatype field =
    Host | ClusterName | AvailabilityZone | ProviderId
  | ProviderLocation | ProviderAuth | ProviderGeometry

fun get_field :: "volume \<Rightarrow> field \<Rightarrow> string option" where
  "get_field v Host = host v"
| "get_field v ClusterName = cluster_name v"
| "get_field v AvailabilityZone = availability_zone v"
| "get_field v ProviderId = provider_id v"
| "get_field v ProviderLocation = provider_location v"
| "get_field v ProviderAuth = provider_auth v"
| "get_field v ProviderGeometry = provider_geometry v"

fun set_field :: "volume \<Rightarrow> field \<Rightarrow> string option \<Rightarrow> volume" where
  "set_field v Host x = v\<lparr>host := x\<rparr>"
| "set_field v ClusterName x = v\<lparr>cluster_name := x\<rparr>"
| "set_field v AvailabilityZone x = v\<lparr>availability_zone := x\<rparr>"
| "set_field v ProviderId x = v\<lparr>provider_id := x\<rparr>"
| "set_field v ProviderLocation x = v\<lparr>provider_location := x\<rparr>"
| "set_field v ProviderAuth x = v\<lparr>provider_auth := x\<rparr>"
| "set_field v ProviderGeometry x = v\<lparr>provider_geometry := x\<rparr>"

definition switched_fields :: "field list" where
  "switched_fields =
     [Host, ClusterName, AvailabilityZone, ProviderId,
      ProviderLocation, ProviderAuth, ProviderGeometry]"

text \<open>
  One round of the loop body of \<^verbatim>\<open>_switch_volumes\<close>:
  \<^verbatim>\<open>tmp = volume[field]; volume[field] = other_volume[field]; other_volume[field] = tmp\<close>.
\<close>

definition switch_field :: "field \<Rightarrow> volume \<times> volume \<Rightarrow> volume \<times> volume" where
  "switch_field f p =
     (let tmp = get_field (fst p) f;
          a = set_field (fst p) f (get_field (snd p) f);
          b = set_field (snd p) f tmp
      in (a, b))"

text \<open>The three assignments that exchange \<^verbatim>\<open>name_id\<close>.\<close>

definition switch_name_id :: "volume \<times> volume \<Rightarrow> volume \<times> volume" where
  "switch_name_id p =
     (let tmp = name_id (fst p);
          a = (fst p)\<lparr>name_id := name_id (snd p)\<rparr>;
          b = (snd p)\<lparr>name_id := tmp\<rparr>
      in (a, b))"

text \<open>The in-memory part of \<^verbatim>\<open>_switch_volumes\<close>, before the two \<^verbatim>\<open>save()\<close> calls.\<close>

definition switch_records :: "volume \<times> volume \<Rightarrow> volume \<times> volume" where
  "switch_records p = fold switch_field switched_fields (switch_name_id p)"

text \<open>The fields that \<^verbatim>\<open>_switch_volumes\<close> does not assign.\<close>

definition other_fields ::
  "volume \<Rightarrow> string \<times> string \<times> string option \<times> string \<times> int \<times> string \<times> string \<times> bool \<times> string option" where
  "other_fields v =
     (vol_id v, status v, migration_status v, attach_status v, vol_size v,
      user_id v, project_id v, use_quota v, display_description v)"

section \<open>Strings\<close>

text \<open>Python's \<^verbatim>\<open>s.split(c)\<close> for a one-character separator: never empty.\<close>

fun split_on :: "char \<Rightarrow> string \<Rightarrow> string list" where
  "split_on c [] = [[]]"
| "split_on c (x # xs) =
     (if x = c then [] # split_on c xs
      else (case split_on c xs of
              [] \<Rightarrow> [[x]]
            | t # ts \<Rightarrow> (x # t) # ts))"

text \<open>Indexing with a non-negative index; \<open>None\<close> is Python's \<^verbatim>\<open>IndexError\<close>.\<close>

definition nth_opt :: "'a list \<Rightarrow> nat \<Rightarrow> 'a option" where
  "nth_opt xs n = (if n < length xs then Some (xs ! n) else None)"

text \<open>\<^verbatim>\<open>s.startswith('target:')\<close> on a value that may be \<^verbatim>\<open>None\<close> or empty.\<close>

definition is_target :: "string option \<Rightarrow> bool" where
  "is_target m = (case m of None \<Rightarrow> False | Some s \<Rightarrow> s \<noteq> [] \<and> prefix ''target:'' s)"

text \<open>\<^verbatim>\<open>sep.join(parts)\<close>.\<close>

fun join :: "string \<Rightarrow> string list \<Rightarrow> string" where
  "join sep [] = []"
| "join sep [x] = x"
| "join sep (x # y # ys) = x @ sep @ join sep (y # ys)"

text \<open>\<^verbatim>\<open>str(n)\<close> for a Python integer.\<close>

definition digit_char :: "nat \<Rightarrow> char" where
  "digit_char d = ''0123456789'' ! d"

fun str_nat :: "nat \<Rightarrow> string" where
  "str_nat n = (if n < 10 then [digit_char n] else str_nat (n div 10) @ [digit_char (n mod 10)])"

declare str_nat.simps [simp del]

definition str_int :: "int \<Rightarrow> string" where
  "str_int i = (if i < 0 then CHR ''-'' # str_nat (nat (- i)) else str_nat (nat i))"

text \<open>Python's \<^verbatim>\<open>s.split()\<close>: the maximal runs of non-whitespace characters.\<close>

definition is_space :: "char \<Rightarrow> bool" where
  "is_space c = (c \<in> set [CHR '' '', CHR 0x09, CHR 0x0A, CHR 0x0B, CHR 0x0C, CHR 0x0D])"

fun tokens_from :: "string \<Rightarrow> string \<Rightarrow> string list" where
  "tokens_from cur [] = (if cur = [] then [] else [rev cur])"
| "tokens_from cur (c # cs) =
     (if is_space c
      then (if cur = [] then tokens_from [] cs else rev cur # tokens_from [] cs)
      else tokens_from (c # cur) cs)"

definition tokens :: "string \<Rightarrow> string list" where
  "tokens s = tokens_from [] s"

section \<open>Collaborators, effects and failures\<close>

text \<open>
  Exceptions are values. \<open>External\<close> stands for whatever a collaborator raises that the
  driver does not name (a failed command, a lost database connection, a failed remote call).
\<close>

datatype error =
    VolumeNotFound
  | ValidationError
  | InvalidConnectorException
  | VolumeMigrationFailed string
  | IndexError
  | KeyError
  | AttributeError
  | TypeError
  | UnboundLocalError
  | External string

text \<open>
  Every call that leaves the driver is an event, in the order the driver makes them:
  the device-mapper commands of \<^verbatim>\<open>self.dmsetup\<close>, the metadata volume group
  \<^verbatim>\<open>self.vg_metadata\<close>, the brick connector, the volume RPC API, the target driver, the
  base LVM driver, the database (object persistence) and the clock.
\<close>

datatype event =
    DmCreate string string
  | DmLoad string string
  | DmSuspend string
  | DmResume string
  | DmMessage string string string
  | DmStatus string
  | DmRemove string
  | LvCreate string string
  | LvDelete string
  | GetConnector string
  | ConnectVolume string
  | DisconnectVolume string
  | RpcCreateVolume string
  | RpcDeleteVolume string
  | RpcRemoveExport string
  | RpcTerminateConnection "string option"
  | TargetInitializeConnection string
  | ServiceGetByArgs string
  | BaseCreateVolume string
  | BaseDeleteVolume string
  | DbCreate volume
  | DbSave volume
  | DbDestroy string
  | DbRefresh string
  | DbGetById string
  | DbGetAllByHost string
  | DbGetAll string
  | ClockRead nat
  | Sleep nat

record service =
  srv_host :: "string option"
  srv_availability_zone :: "string option"
  srv_cluster_name :: "string option"

text \<open>
  What the driver cannot decide is a parameter: which call raises what (given everything
  that happened before), how long a call takes, what \<^verbatim>\<open>dmsetup status\<close> prints, what a
  refresh of a record loads, which id a new record gets, and the helpers of other modules
  (\<^verbatim>\<open>local_path\<close>, \<^verbatim>\<open>extract_host\<close>, the service table, the connection handle, the
  configuration).
\<close>

record env =
  raises :: "event list \<Rightarrow> event \<Rightarrow> error option"
  elapse :: "event list \<Rightarrow> event \<Rightarrow> nat"
  status_line :: "event list \<Rightarrow> string \<Rightarrow> string"
  reload :: "event list \<Rightarrow> nat \<Rightarrow> volume \<Rightarrow> volume"
  new_uuid :: "event list \<Rightarrow> string"
  services :: "string \<Rightarrow> service"
  local_path :: "volume \<Rightarrow> string"
  extract_host :: "string option \<Rightarrow> string \<Rightarrow> error + string"
  owned_by :: "string \<Rightarrow> volume \<Rightarrow> bool"
  handle_path :: "string \<Rightarrow> string"
  conf_host :: string
  capabilities :: "(string \<times> string) list"

text \<open>
  The state: the persisted records, the calls made so far, the clock in seconds, and two
  history variables: the assignments to \<^verbatim>\<open>migration_status\<close> made so far (record id,
  old value, new value), and every write to the database that went through, with the
  records as they were persisted right after it.
\<close>

record world =
  db :: "volume list"
  trace :: "event list"
  now :: nat
  mig_log :: "(string \<times> string option \<times> string option) list"
  db_log :: "(event \<times> volume list) list"

type_synonym 'a res = "(error + 'a) \<times> world"

definition ret :: "'a \<Rightarrow> world \<Rightarrow> 'a res" where
  "ret x w = (Inr x, w)"

definition raise :: "error \<Rightarrow> world \<Rightarrow> 'a res" where
  "raise e w = (Inl e, w)"

text \<open>Sequencing: an exception of the first part skips the second.\<close>

definition then_do :: "(world \<Rightarrow> 'a res) \<Rightarrow> ('a \<Rightarrow> world \<Rightarrow> 'b res) \<Rightarrow> world \<Rightarrow> 'b res" where
  "then_do m f w = (case m w of (Inl e, w') \<Rightarrow> (Inl e, w') | (Inr x, w') \<Rightarrow> f x w')"

text \<open>A call to a collaborator: recorded, takes its time, then returns or raises.\<close>

definition call :: "env \<Rightarrow> event \<Rightarrow> world \<Rightarrow> unit res" where
  "call E e w =
     (let w' = w\<lparr>trace := trace w @ [e], now := now w + elapse E (trace w) e\<rparr>
      in case raises E (trace w) e of
           Some err \<Rightarrow> (Inl err, w')
         | None \<Rightarrow> (Inr (), w'))"

text \<open>\<^verbatim>\<open>time.time()\<close> and \<^verbatim>\<open>time.sleep(n)\<close>: neither raises.\<close>

definition time_now :: "world \<Rightarrow> nat \<times> world" where
  "time_now w = (now w, w\<lparr>trace := trace w @ [ClockRead (now w)]\<rparr>)"

definition sleep :: "env \<Rightarrow> nat \<Rightarrow> world \<Rightarrow> world" where
  "sleep E n w =
     w\<lparr>trace := trace w @ [Sleep n], now := now w + n + elapse E (trace w) (Sleep n)\<rparr>"

section \<open>Persistence\<close>

text \<open>
  Modelled from the spec: \<^verbatim>\<open>cinder.objects.Volume\<close> is not part of the driver file.
  The spec lists load-by-id, load-all-by-host, save, refresh and destroy as atomic
  per-record writes and reads; \<^verbatim>\<open>name_id\<close> determines the backing storage object name,
  and a record that was never renamed is named after its id.
\<close>

definition db_lookup :: "volume list \<Rightarrow> string \<Rightarrow> volume option" where
  "db_lookup rows i = find (\<lambda>r. vol_id r = i) rows"

definition db_put :: "volume list \<Rightarrow> volume \<Rightarrow> volume list" where
  "db_put rows v =
     (if list_ex (\<lambda>r. vol_id r = vol_id v) rows
      then map (\<lambda>r. if vol_id r = vol_id v then v else r) rows
      else rows @ [v])"

definition db_delete :: "volume list \<Rightarrow> string \<Rightarrow> volume list" where
  "db_delete rows i = filter (\<lambda>r. vol_id r \<noteq> i) rows"

definition write_db :: "event \<Rightarrow> volume list \<Rightarrow> world \<Rightarrow> world" where
  "write_db e rows w = w\<lparr>db := rows, db_log := db_log w @ [(e, rows)]\<rparr>"

definition save :: "env \<Rightarrow> volume \<Rightarrow> world \<Rightarrow> unit res" where
  "save E v =
     then_do (call E (DbSave v)) (\<lambda>_ w. (Inr (), write_db (DbSave v) (db_put (db w) v) w))"

definition create :: "env \<Rightarrow> volume \<Rightarrow> world \<Rightarrow> volume res" where
  "create E v w =
     (let i = new_uuid E (trace w); v' = v\<lparr>vol_id := i, name_id := i\<rparr>
      in then_do (call E (DbCreate v'))
           (\<lambda>_ w'. (Inr v', write_db (DbCreate v') (db_put (db w') v') w')) w)"

definition destroy :: "env \<Rightarrow> volume \<Rightarrow> world \<Rightarrow> unit res" where
  "destroy E v =
     then_do (call E (DbDestroy (vol_id v)))
       (\<lambda>_ w. (Inr (), write_db (DbDestroy (vol_id v)) (db_delete (db w) (vol_id v)) w))"

text \<open>A refresh loads what the record has become, also through other hosts.\<close>

definition refresh :: "env \<Rightarrow> volume \<Rightarrow> world \<Rightarrow> volume res" where
  "refresh E v w =
     then_do (call E (DbRefresh (vol_id v)))
       (\<lambda>_ w'. (Inr ((reload E (trace w) (now w) v)\<lparr>vol_id := vol_id v\<rparr>), w')) w"

definition get_by_id :: "env \<Rightarrow> string \<Rightarrow> world \<Rightarrow> volume res" where
  "get_by_id E i =
     then_do (call E (DbGetById i))
       (\<lambda>_ w. case db_lookup (db w) i of
                 None \<Rightarrow> (Inl VolumeNotFound, w)
               | Some v \<Rightarrow> (Inr v, w))"

definition get_all_by_host :: "env \<Rightarrow> string \<Rightarrow> world \<Rightarrow> (volume list) res" where
  "get_all_by_host E h =
     then_do (call E (DbGetAllByHost h)) (\<lambda>_ w. (Inr (filter (owned_by E h) (db w)), w))"

text \<open>\<^verbatim>\<open>VolumeList.get_all(ctxt, limit=1, filters={'migration_status': m})\<close>.\<close>

definition get_all_limit1 :: "env \<Rightarrow> string \<Rightarrow> world \<Rightarrow> (volume list) res" where
  "get_all_limit1 E m =
     then_do (call E (DbGetAll m))
       (\<lambda>_ w. (Inr (take 1 (filter (\<lambda>r. migration_status r = Some m) (db w))), w))"

text \<open>
  An assignment to \<^verbatim>\<open>migration_status\<close> (\<^verbatim>\<open>volume.update({'migration_status': x})\<close> or
  \<^verbatim>\<open>volume['migration_status'] = x\<close>) changes the object and is noted in \<open>mig_log\<close>.
\<close>

definition set_migration_status :: "volume \<Rightarrow> string option \<Rightarrow> world \<Rightarrow> volume res" where
  "set_migration_status v x w =
     (Inr (v\<lparr>migration_status := x\<rparr>),
      w\<lparr>mig_log := mig_log w @ [(vol_id v, migration_status v, x)]\<rparr>)"

section \<open>Names and tables\<close>

text \<open>
  Modelled from the spec: \<^verbatim>\<open>Volume.name\<close> is not part of the driver file; the spec says
  that \<^verbatim>\<open>name_id\<close> determines the backing storage object name. The prefix is the stock
  volume name template.
\<close>

definition volume_name :: "volume \<Rightarrow> string" where
  "volume_name v = ''volume-'' @ name_id v"

definition metadata_dev_name :: "volume \<Rightarrow> string" where
  "metadata_dev_name v = volume_name v @ ''-metadata''"

definition dm_target_name :: "volume \<Rightarrow> string" where
  "dm_target_name v = volume_name v @ ''-handle''"

definition linear_table :: "env \<Rightarrow> volume \<Rightarrow> string" where
  "linear_table E v =
     join '' '' [''0'', str_int (vol_size v * 2097152), ''linear'', local_path E v, ''0'']"

definition clone_table :: "env \<Rightarrow> volume \<Rightarrow> string \<Rightarrow> string" where
  "clone_table E v src_path =
     join '' '' [''0'', str_int (vol_size v * 2097152), ''clone'',
                 ''/dev/vg0/'' @ metadata_dev_name v, local_path E v, src_path,
                 ''8'', ''1'', ''no_hydration'']"

section \<open>Helpers of the driver\<close>

text \<open>
  Modelled from the spec: \<^verbatim>\<open>DMSetup.status\<close> (\<^verbatim>\<open>dmsetup.py\<close>) is not part of the driver
  file. The spec calls the status line-oriented, and the monitor reads it by position
  (\<^verbatim>\<open>dm_status[2]\<close>, \<^verbatim>\<open>dm_status[6]\<close>, \<^verbatim>\<open>dm_status[7]\<close>) with the target type at
  position 2: the result is the list of whitespace-separated tokens of the line.
\<close>

definition dmsetup_status :: "env \<Rightarrow> string \<Rightarrow> world \<Rightarrow> (string list) res" where
  "dmsetup_status E n w =
     then_do (call E (DmStatus n)) (\<lambda>_. ret (tokens (status_line E (trace w) n))) w"

text \<open>\<^verbatim>\<open>_get_connector\<close>: the connector and the iSCSI properties of a volume, or an exception.\<close>

definition get_connector :: "env \<Rightarrow> volume \<Rightarrow> world \<Rightarrow> string res" where
  "get_connector E v = then_do (call E (GetConnector (vol_id v))) (\<lambda>_. ret (vol_id v))"

text \<open>\<^verbatim>\<open>_switch_volumes\<close>; \<^verbatim>\<open>other_volume\<close> may be \<^verbatim>\<open>None\<close> at one call site.\<close>

definition switch_volumes ::
  "env \<Rightarrow> volume \<Rightarrow> volume option \<Rightarrow> world \<Rightarrow> (volume \<times> volume) res" where
  "switch_volumes E v other =
     (case other of
        None \<Rightarrow> raise AttributeError
      | Some ov \<Rightarrow>
          (let p = switch_records (v, ov)
           in then_do (save E (fst p)) (\<lambda>_.
              then_do (save E (snd p)) (\<lambda>_.
              ret p))))"

text \<open>\<^verbatim>\<open>_find_src_volume\<close>: the record named after the colon, or \<^verbatim>\<open>None\<close>.\<close>

definition find_src_volume :: "env \<Rightarrow> volume \<Rightarrow> world \<Rightarrow> (volume option) res" where
  "find_src_volume E v w =
     (case migration_status v of
        None \<Rightarrow> (Inl AttributeError, w)
      | Some ms \<Rightarrow>
          (case nth_opt (split_on CHR '':'' ms) 1 of
             None \<Rightarrow> (Inl IndexError, w)
           | Some src_volume_id \<Rightarrow>
               (case get_by_id E src_volume_id w of
                  (Inl VolumeNotFound, w') \<Rightarrow> (Inr None, w')
                | (Inl e, w') \<Rightarrow> (Inl e, w')
                | (Inr src_volume, w') \<Rightarrow> (Inr (Some src_volume), w'))))"

text \<open>
  \<^verbatim>\<open>_disconnect_volume\<close>: whatever the connector raises is logged and dropped; the
  export is removed afterwards in any case.
\<close>

definition disconnect_volume :: "env \<Rightarrow> volume \<Rightarrow> world \<Rightarrow> unit res" where
  "disconnect_volume E v w =
     (let w1 = snd (then_do (get_connector E v) (\<lambda>c. call E (DisconnectVolume c)) w)
      in call E (RpcRemoveExport (vol_id v)) w1)"

section \<open>The migration monitor\<close>

text \<open>
  The test \<^verbatim>\<open>hydrated[0] == hydrated[1] and dm_status[7] == '0'\<close> on
  \<^verbatim>\<open>hydrated = dm_status[6].split('/')\<close>, with Python's evaluation order.
\<close>

definition hydration_complete :: "string list \<Rightarrow> error + bool" where
  "hydration_complete dm_status =
     (case nth_opt dm_status 6 of
        None \<Rightarrow> Inl IndexError
      | Some t6 \<Rightarrow>
          (let hydrated = split_on CHR ''/'' t6
           in case nth_opt hydrated 0 of
                None \<Rightarrow> Inl IndexError
              | Some h0 \<Rightarrow>
                  (case nth_opt hydrated 1 of
                     None \<Rightarrow> Inl IndexError
                   | Some h1 \<Rightarrow>
                       if h0 = h1
                       then (case nth_opt dm_status 7 of
                               None \<Rightarrow> Inl IndexError
                             | Some t7 \<Rightarrow> Inr (t7 = ''0''))
                       else Inr False)))"

text \<open>
  The body of the \<^verbatim>\<open>if\<close> that completes a migration, after the look-up of the source
  (lines 214 to 257).
\<close>

definition complete_migration :: "env \<Rightarrow> volume \<Rightarrow> volume option \<Rightarrow> world \<Rightarrow> unit res" where
  "complete_migration E volume src_volume =
     then_do (set_migration_status volume (Some ''completing'')) (\<lambda>volume.
     then_do (save E volume) (\<lambda>_.
     then_do (call E (DmSuspend (dm_target_name volume))) (\<lambda>_.
     then_do (call E (DmLoad (dm_target_name volume) (linear_table E volume))) (\<lambda>_.
     then_do (call E (DmResume (dm_target_name volume))) (\<lambda>_.
     then_do (call E (LvDelete (metadata_dev_name volume))) (\<lambda>_.
     then_do (case src_volume of
                None \<Rightarrow> ret ()
              | Some s \<Rightarrow>
                  then_do (disconnect_volume E s) (\<lambda>_.
                  call E (RpcDeleteVolume (vol_id s)))) (\<lambda>_.
     then_do (set_migration_status volume (Some ''success'')) (\<lambda>volume.
     save E volume))))))))"

text \<open>The whole body of that \<^verbatim>\<open>if\<close> (lines 209 to 257): look the source up, then complete.\<close>

definition finalize :: "env \<Rightarrow> volume \<Rightarrow> world \<Rightarrow> unit res" where
  "finalize E volume =
     then_do (find_src_volume E volume) (\<lambda>src_volume.
     complete_migration E volume src_volume)"

text \<open>The body of the loop over the candidate volumes (lines 184 to 257).\<close>

definition monitor_volume :: "env \<Rightarrow> volume \<Rightarrow> world \<Rightarrow> unit res" where
  "monitor_volume E volume =
     then_do (dmsetup_status E (dm_target_name volume)) (\<lambda>dm_status.
       case nth_opt dm_status 2 of
         None \<Rightarrow> raise IndexError
       | Some ty \<Rightarrow>
           if ty \<noteq> ''clone'' then ret ()
           else (case hydration_complete dm_status of
                   Inl e \<Rightarrow> raise e
                 | Inr complete \<Rightarrow> if complete then finalize E volume else ret ()))"

text \<open>The \<^verbatim>\<open>for\<close> loop: nothing catches an exception of the body.\<close>

fun monitor_loop :: "env \<Rightarrow> volume list \<Rightarrow> world \<Rightarrow> unit res" where
  "monitor_loop E [] w = (Inr (), w)"
| "monitor_loop E (v # vs) w =
     (case monitor_volume E v w of
        (Inl e, w') \<Rightarrow> (Inl e, w')
      | (Inr u, w') \<Rightarrow> monitor_loop E vs w')"

text \<open>\<^verbatim>\<open>_migration_monitor\<close>: one tick.\<close>

definition migration_monitor :: "env \<Rightarrow> world \<Rightarrow> unit res" where
  "migration_monitor E =
     (case map_of (capabilities E) ''volume_backend_name'' of
        None \<Rightarrow> ret ()
      | Some backend \<Rightarrow>
          then_do (get_all_by_host E (conf_host E @ ''@'' @ backend)) (\<lambda>vs.
          monitor_loop E (filter (\<lambda>v. is_target (migration_status v)) vs)))"

section \<open>Creating a volume\<close>

text \<open>
  The local variables of \<^verbatim>\<open>create_volume\<close> that its exception handler reads. A name
  that was never assigned is \<open>None\<close>: reading it raises \<^verbatim>\<open>UnboundLocalError\<close>.
  \<open>l_connector\<close> stands for \<^verbatim>\<open>connector\<close> and \<^verbatim>\<open>connector_data\<close> (assigned together),
  \<open>l_handle\<close> for the path of \<^verbatim>\<open>src_volume_handle\<close>.
\<close>

record locals =
  l_connector :: "string option"
  l_handle :: "string option"

definition no_locals :: locals where
  "no_locals = \<lparr>l_connector = None, l_handle = None\<rparr>"

text \<open>A volume object is true in a condition; only \<^verbatim>\<open>None\<close> would be false.\<close>

definition truthy :: "volume \<Rightarrow> bool" where
  "truthy v = True"

text \<open>
  The first \<^verbatim>\<open>if\<close> of the \<^verbatim>\<open>try\<close> block (lines 274 to 331): find the source, connect it,
  allocate the metadata device, create the clone overlay.
\<close>

definition create_overlay :: "env \<Rightarrow> volume \<Rightarrow> world \<Rightarrow> (error + unit) \<times> locals \<times> world" where
  "create_overlay E volume w =
     (if migration_status volume \<in> set [Some ''starting'', Some ''migrating''] then
        (case get_all_limit1 E (''target:'' @ vol_id volume) w of
           (Inl e, w1) \<Rightarrow> (Inl e, no_locals, w1)
         | (Inr rows, w1) \<Rightarrow>
             (case nth_opt rows 0 of
                None \<Rightarrow> (Inl IndexError, no_locals, w1)
              | Some src_volume \<Rightarrow>
                  if \<not> truthy src_volume then (Inl ValidationError, no_locals, w1)
                  else
                    (case get_connector E src_volume w1 of
                       (Inl e, w2) \<Rightarrow> (Inl e, no_locals, w2)
                     | (Inr c, w2) \<Rightarrow>
                         (case call E (ConnectVolume c) w2 of
                            (Inl e, w3) \<Rightarrow> (Inl e, \<lparr>l_connector = Some c, l_handle = None\<rparr>, w3)
                          | (Inr u, w3) \<Rightarrow>
                              (let path = handle_path E c;
                                   loc = \<lparr>l_connector = Some c, l_handle = Some path\<rparr>;
                                   r = then_do (call E (LvCreate (metadata_dev_name volume) ''1g'')) (\<lambda>_.
                                       call E (DmCreate (dm_target_name volume)
                                                 (clone_table E volume path))) w3
                               in (fst r, loc, snd r))))))
      else (Inr (), no_locals, w))"

text \<open>
  The handler (lines 338 to 359), inside \<^verbatim>\<open>save_and_reraise_exception\<close>: when the block
  ends normally the saved exception \<open>e\<close> is raised again; an exception raised inside the
  block takes its place and ends the block there.
\<close>

definition create_failed :: "env \<Rightarrow> volume \<Rightarrow> locals \<Rightarrow> error \<Rightarrow> world \<Rightarrow> volume res" where
  "create_failed E volume loc e =
     then_do (ret (volume\<lparr>status := ''error''\<rparr>)) (\<lambda>volume.
     then_do (set_migration_status volume (Some ''error'')) (\<lambda>volume.
     then_do (save E volume) (\<lambda>_.
     then_do (call E (DmRemove (dm_target_name volume))) (\<lambda>_.
     then_do (case l_connector loc of
                None \<Rightarrow> raise UnboundLocalError
              | Some c \<Rightarrow>
                  (case l_handle loc of
                     None \<Rightarrow> raise UnboundLocalError
                   | Some path \<Rightarrow> call E (DisconnectVolume c))) (\<lambda>_.
     then_do (call E (LvDelete (metadata_dev_name volume))) (\<lambda>_.
     then_do (call E (BaseDeleteVolume (vol_id volume))) (\<lambda>_.
     raise e)))))))"

text \<open>
  The \<^verbatim>\<open>try\<close> block (lines 274 to 337): the overlay, then the message that starts
  hydration when the volume is \<^verbatim>\<open>migrating\<close>.
\<close>

definition try_block :: "env \<Rightarrow> volume \<Rightarrow> world \<Rightarrow> (error + unit) \<times> locals \<times> world" where
  "try_block E volume w =
     (case create_overlay E volume w of
        (Inl e, loc, w1) \<Rightarrow> (Inl e, loc, w1)
      | (Inr u, loc, w1) \<Rightarrow>
          if migration_status volume = Some ''migrating'' then
            (case call E (DmMessage (dm_target_name volume) ''0'' ''enable_hydration'') w1 of
               (r, w2) \<Rightarrow> (r, loc, w2))
          else (Inr (), loc, w1))"

definition create_volume :: "env \<Rightarrow> volume \<Rightarrow> world \<Rightarrow> volume res" where
  "create_volume E volume w =
     (case call E (BaseCreateVolume (vol_id volume)) w of
        (Inl e, w0) \<Rightarrow> (Inl e, w0)
      | (Inr u, w0) \<Rightarrow>
          (case try_block E volume w0 of
             (Inl e, loc, w1) \<Rightarrow> create_failed E volume loc e w1
           | (Inr u, loc, w1) \<Rightarrow> (Inr volume, w1)))"

section \<open>Attaching: \<^verbatim>\<open>initialize_connection\<close>\<close>

type_synonym connector = "(string \<times> string) list"

text \<open>\<^verbatim>\<open>d[k]\<close> on a dictionary.\<close>

definition item :: "connector \<Rightarrow> string \<Rightarrow> world \<Rightarrow> string res" where
  "item d k = (case map_of d k of None \<Rightarrow> raise KeyError | Some x \<Rightarrow> ret x)"

definition lift :: "error + 'a \<Rightarrow> world \<Rightarrow> 'a res" where
  "lift r w = (r, w)"

text \<open>Lines 401 to 407.\<close>

definition migration_role :: "string \<Rightarrow> string option" where
  "migration_role st =
     (if st = ''reserved'' then Some ''migrating''
      else if st = ''in-use'' then Some ''starting''
      else None)"

text \<open>The constructor call of lines 409 to 421; \<^verbatim>\<open>create()\<close> gives the id.\<close>

definition new_volume_object :: "service \<Rightarrow> string option \<Rightarrow> volume \<Rightarrow> volume" where
  "new_volume_object dst_service role volume =
     \<lparr>vol_id = [], name_id = [],
      host = srv_host dst_service,
      cluster_name = srv_cluster_name dst_service,
      availability_zone = srv_availability_zone dst_service,
      provider_id = None, provider_location = None,
      provider_auth = None, provider_geometry = None,
      status = ''creating'',
      migration_status = role,
      attach_status = ''detached'',
      vol_size = vol_size volume,
      user_id = user_id volume,
      project_id = project_id volume,
      use_quota = False,
      display_description = None\<rparr>"

text \<open>
  Lines 456 to 478, the failure branch of the wait. Modelled from the spec:
  \<^verbatim>\<open>Volume.destroy\<close> is not part of the driver file; it destroys the local record, and
  the two failures stay distinguished by the status that was polled.
\<close>

definition wait_failed :: "env \<Rightarrow> volume \<Rightarrow> volume \<Rightarrow> world \<Rightarrow> volume res" where
  "wait_failed E new_volume volume =
     then_do (\<lambda>w. case call E (RpcDeleteVolume (vol_id new_volume)) w of
                    (Inl VolumeNotFound, w') \<Rightarrow> (Inr (), w')
                  | r \<Rightarrow> r) (\<lambda>_.
     then_do (destroy E new_volume) (\<lambda>_.
     then_do (set_migration_status volume (Some ''error'')) (\<lambda>volume.
     then_do (save E volume) (\<lambda>_.
     if status new_volume = ''error''
     then raise (VolumeMigrationFailed ''Error creating remote volume'')
     else raise (VolumeMigrationFailed ''Timeout wating for remote volume creation'')))))"

text \<open>The \<^verbatim>\<open>while\<close> loop of lines 453 to 481; it returns the destination as last refreshed.\<close>

function wait_available ::
  "env \<Rightarrow> nat \<Rightarrow> nat \<Rightarrow> volume \<Rightarrow> volume \<Rightarrow> world \<Rightarrow> volume res" where
  "wait_available E deadline tries new_volume volume w =
     (if status new_volume \<noteq> ''available'' then
        (let t = fst (time_now w); w1 = snd (time_now w)
         in if deadline < t \<or> status new_volume = ''error''
            then wait_failed E new_volume volume w1
            else (case refresh E new_volume (sleep E ((tries + 1) ^ 2) w1) of
                    (Inl e, w2) \<Rightarrow> (Inl e, w2)
                  | (Inr nv, w2) \<Rightarrow> wait_available E deadline (tries + 1) nv volume w2))
      else (Inr new_volume, w))"
  by pat_completeness auto
termination
  by (relation "measure (\<lambda>(E, deadline, tries, nv, v, w). Suc deadline - now w)")
     (auto simp: time_now_def sleep_def refresh_def then_do_def call_def Let_def
           power2_eq_square split: option.splits)

declare wait_available.simps [simp del]

record connection_info =
  driver_volume_type :: string
  device_path :: string

text \<open>The \<^verbatim>\<open>else\<close> branch of lines 385 to 499; it returns the origin object as it ends up.\<close>

definition initialize_remote :: "env \<Rightarrow> volume \<Rightarrow> connector \<Rightarrow> world \<Rightarrow> volume res" where
  "initialize_remote E volume connector =
     then_do (call E (TargetInitializeConnection (vol_id volume))) (\<lambda>_.
     then_do (item connector ''host'') (\<lambda>chost.
     then_do (case host volume of
                None \<Rightarrow> raise AttributeError
              | Some h \<Rightarrow>
                  (case nth_opt (split_on CHR ''@'' h) 1 of
                     None \<Rightarrow> raise IndexError
                   | Some b \<Rightarrow> ret (chost @ ''@'' @ b))) (\<lambda>dst_host.
     then_do (lift (extract_host E (Some dst_host) ''backend'')) (\<lambda>backend.
     then_do (call E (ServiceGetByArgs backend)) (\<lambda>_.
     then_do (create E (new_volume_object (services E backend)
                          (migration_role (status volume)) volume)) (\<lambda>new_volume.
     then_do (set_migration_status volume (Some (''target:'' @ vol_id new_volume))) (\<lambda>volume.
     then_do (save E volume) (\<lambda>_.
     then_do (call E (RpcCreateVolume (vol_id new_volume))) (\<lambda>_.
     then_do (\<lambda>w. (Inr (fst (time_now w) + 60), snd (time_now w))) (\<lambda>deadline.
     then_do (refresh E new_volume) (\<lambda>new_volume.
     then_do (wait_available E deadline 0 new_volume volume) (\<lambda>new_volume.
     then_do (ret (new_volume\<lparr>status := ''maintenance'',
                              display_description :=
                                Some (''migration src for '' @ vol_id volume)\<rparr>)) (\<lambda>new_volume.
     then_do (save E new_volume) (\<lambda>_.
     then_do (switch_volumes E volume (Some new_volume)) (\<lambda>p.
     ret (fst p))))))))))))))))"

definition initialize_connection ::
  "env \<Rightarrow> volume \<Rightarrow> connector \<Rightarrow> world \<Rightarrow> (connection_info \<times> volume) res" where
  "initialize_connection E volume connector =
     then_do (item connector ''host'') (\<lambda>chost.
     then_do (lift (extract_host E (host volume) ''host'')) (\<lambda>vhost.
     then_do (if chost = vhost
              then then_do (call E (DmCreate (dm_target_name volume) (linear_table E volume)))
                     (\<lambda>_. ret volume)
              else initialize_remote E volume connector) (\<lambda>volume.
     ret (\<lparr>driver_volume_type = ''local'',
           device_path = ''/dev/mapper/'' @ dm_target_name volume\<rparr>, volume))))"

section \<open>Detaching: \<^verbatim>\<open>terminate_connection\<close>\<close>

text \<open>
  The clean-up that lines 521 to 539 and lines 553 to 571 both spell out: switch back,
  remove overlay and metadata device, disconnect, delete the destination, clear the
  migration state.
\<close>

definition rollback :: "env \<Rightarrow> volume \<Rightarrow> world \<Rightarrow> volume res" where
  "rollback E volume =
     then_do (find_src_volume E volume) (\<lambda>src_volume.
     then_do (switch_volumes E volume src_volume) (\<lambda>p.
     then_do (call E (DmRemove (dm_target_name (snd p)))) (\<lambda>_.
     then_do (call E (LvDelete (metadata_dev_name (snd p)))) (\<lambda>_.
     then_do (disconnect_volume E (fst p)) (\<lambda>_.
     then_do (call E (RpcDeleteVolume (vol_id (snd p)))) (\<lambda>_.
     then_do (set_migration_status (fst p) None) (\<lambda>volume.
     then_do (save E volume) (\<lambda>_.
     ret volume))))))))"

text \<open>Lines 576 to 586: the live migration went through.\<close>

definition start_hydration :: "env \<Rightarrow> volume \<Rightarrow> world \<Rightarrow> volume res" where
  "start_hydration E volume =
     then_do (find_src_volume E volume) (\<lambda>src_volume.
     then_do (call E (RpcTerminateConnection (map_option vol_id src_volume))) (\<lambda>_.
     then_do (case src_volume of
                None \<Rightarrow> raise TypeError
              | Some s \<Rightarrow> set_migration_status s (Some ''migrating'')) (\<lambda>src_volume.
     then_do (save E src_volume) (\<lambda>_.
     then_do (call E (DmMessage (dm_target_name volume) ''0'' ''enable_hydration'')) (\<lambda>_.
     ret volume)))))"

definition terminate_connection ::
  "env \<Rightarrow> volume \<Rightarrow> connector option \<Rightarrow> world \<Rightarrow> volume res" where
  "terminate_connection E volume connector =
     (if is_target (migration_status volume) then
        (if status volume = ''reserved'' then rollback E volume
         else if status volume = ''in-use'' then
           (case connector of
              None \<Rightarrow> raise InvalidConnectorException
            | Some c \<Rightarrow>
                if c = [] then raise InvalidConnectorException
                else
                  then_do (item c ''host'') (\<lambda>chost.
                  then_do (lift (extract_host E (host volume) ''host'')) (\<lambda>vhost.
                  if chost = vhost then rollback E volume
                  else start_hydration E volume)))
         else ret volume)
      else if status volume = ''detaching'' then
        then_do (call E (DmRemove (dm_target_name volume))) (\<lambda>_. ret volume)
      else if status volume = ''maintenance'' \<and> migration_status volume = Some ''starting'' then
        then_do (call E (DmRemove (dm_target_name volume))) (\<lambda>_. ret volume)
      else ret volume)"

section \<open>An example deployment\<close>

text \<open>
  A concrete environment for running the model: no call raises, calls take no time, the
  overlay reports the status line that the comment in \<^verbatim>\<open>_migration_monitor\<close> quotes, a
  refresh finds the record as it was, and \<^verbatim>\<open>extract_host\<close> cuts a host string
  \<^verbatim>\<open>host@backend#pool\<close> at \<^verbatim>\<open>@\<close> or \<^verbatim>\<open>#\<close>.
\<close>

definition example_extract_host :: "string option \<Rightarrow> string \<Rightarrow> error + string" where
  "example_extract_host h level =
     (case h of
        None \<Rightarrow> Inl (External ''InvalidVolume'')
      | Some s \<Rightarrow>
          Inr (if level = ''host''
               then hd (split_on CHR ''@'' (hd (split_on CHR ''#'' s)))
               else hd (split_on CHR ''#'' s)))"

definition kernel_status_line :: string where
  "kernel_status_line =
     ''0 2097152 clone 8 30/262144 8 262144/262144 0 0 4 hydration_threshold 1 hydration_batch_size 1 rw''"

definition spec_status_line :: string where
  "spec_status_line =
     ''0 2097152 clone 8 262144/262144 0 0 4 hydration_threshold 1 hydration_batch_size 1 rw''"

definition partial_status_line :: string where
  "partial_status_line =
     ''0 2097152 clone 8 30/262144 8 30/262144 0 0 4 hydration_threshold 1 hydration_batch_size 1 rw''"

definition quiet_env :: env where
  "quiet_env =
     \<lparr>raises = (\<lambda>tr e. None),
      elapse = (\<lambda>tr e. 0),
      status_line = (\<lambda>tr n. kernel_status_line),
      reload = (\<lambda>tr t v. v),
      new_uuid = (\<lambda>tr. ''n1''),
      services = (\<lambda>h. \<lparr>srv_host = Some ''hostB@lvm'',
                       srv_availability_zone = Some ''nova'',
                       srv_cluster_name = None\<rparr>),
      local_path = (\<lambda>v. ''/dev/vg/'' @ volume_name v),
      extract_host = example_extract_host,
      owned_by = (\<lambda>h v. host v = Some h),
      handle_path = (\<lambda>c. ''/dev/sdb''),
      conf_host = ''hostB'',
      capabilities = [(''volume_backend_name'', ''lvm'')]\<rparr>"

text \<open>A volume on host A, in use, not migrating; and the same volume as a migration target on host B.\<close>

definition vol_a :: volume where
  "vol_a =
     \<lparr>vol_id = ''a1'', name_id = ''a1'', host = Some ''hostA@lvm'', cluster_name = None,
      availability_zone = Some ''nova'', provider_id = None, provider_location = None,
      provider_auth = None, provider_geometry = None, status = ''in-use'',
      migration_status = None, attach_status = ''attached'', vol_size = 1,
      user_id = ''u'', project_id = ''p'', use_quota = True, display_description = None\<rparr>"

definition vol_t :: volume where
  "vol_t = vol_a\<lparr>host := Some ''hostB@lvm'', migration_status := Some ''target:zz''\<rparr>"

definition world_of :: "volume list \<Rightarrow> world" where
  "world_of rows = \<lparr>db = rows, trace = [], now = 0, mig_log = [], db_log = []\<rparr>"

section \<open>Histories\<close>

text \<open>
  Predicates on what a part of the driver adds to a history (the calls, the assignments to
  \<^verbatim>\<open>migration_status\<close>, the database writes), used to state and prove the properties below.
\<close>

definition appends :: "(world \<Rightarrow> 'x list) \<Rightarrow> ('x \<Rightarrow> bool) \<Rightarrow> (world \<Rightarrow> 'a res) \<Rightarrow> bool" where
  "appends g P m = (\<forall>w. \<exists>xs. g (snd (m w)) = g w @ xs \<and> list_all P xs)"

definition is_create :: "event \<Rightarrow> bool" where
  "is_create e = (case e of DbCreate v \<Rightarrow> True | _ \<Rightarrow> False)"

definition is_poll :: "event \<Rightarrow> bool" where
  "is_poll e = (case e of ClockRead t \<Rightarrow> True | Sleep n \<Rightarrow> True | DbRefresh i \<Rightarrow> True | _ \<Rightarrow> False)"

definition polled :: "world \<Rightarrow> world \<Rightarrow> bool" where
  "polled w w' =
     (db w' = db w \<and> db_log w' = db_log w \<and> mig_log w' = mig_log w \<and> now w \<le> now w'
      \<and> (\<exists>polls. trace w' = trace w @ polls \<and> list_all is_poll polls))"

definition ready_env :: env where
  "ready_env = quiet_env\<lparr>reload := (\<lambda>tr t v. v\<lparr>status := ''available''\<rparr>)\<rparr>"

definition dest_b :: volume where
  "dest_b =
     \<lparr>vol_id = ''n1'', name_id = ''n1'', host = Some ''hostB@lvm'', cluster_name = None,
      availability_zone = Some ''nova'', provider_id = None, provider_location = None,
      provider_auth = None, provider_geometry = None, status = ''creating'',
      migration_status = Some ''starting'', attach_status = ''detached'', vol_size = 1,
      user_id = ''u'', project_id = ''p'', use_quota = False, display_description = None\<rparr>"

definition role_ok :: "volume \<Rightarrow> event \<Rightarrow> bool" where
  "role_ok volume e =
     (case e of
        DbCreate nv \<Rightarrow>
          migration_status nv =
            (if status volume = ''reserved'' then Some ''migrating''
             else if status volume = ''in-use'' then Some ''starting''
             else None)
          \<and> status nv = ''creating''
      | _ \<Rightarrow> True)"

definition rpc_down_env :: env where
  "rpc_down_env =
     quiet_env\<lparr>raises := (\<lambda>tr e. case e of RpcCreateVolume i \<Rightarrow> Some (External ''rpc'') | _ \<Rightarrow> None)\<rparr>"

text \<open>
  The completion test as the specification words it, on the line format the specification
  gives (\<^verbatim>\<open><start> <length> clone <meta-dev-sectors> <hydrated>/<total> <dirty-regions>
  <hydration-errors> ...\<close>): hydrated equals total and the error count is \<^verbatim>\<open>0\<close>.
\<close>

definition spec_hydration_complete :: "string list \<Rightarrow> bool" where
  "spec_hydration_complete toks =
     (case nth_opt toks 4 of
        None \<Rightarrow> False
      | Some pair \<Rightarrow>
          (case split_on CHR ''/'' pair of
             [hyd, tot] \<Rightarrow> hyd = tot \<and> nth_opt toks 6 = Some ''0''
           | _ \<Rightarrow> False))"

definition status_env :: "string \<Rightarrow> env" where
  "status_env line = quiet_env\<lparr>status_line := (\<lambda>tr n. line)\<rparr>"

definition vol_u :: volume where
  "vol_u = vol_t\<lparr>vol_id := ''b2'', name_id := ''b2''\<rparr>"

definition suspend_fails_env :: env where
  "suspend_fails_env =
     quiet_env\<lparr>raises := (\<lambda>tr e. if e = DmSuspend ''volume-a1-handle''
                                  then Some (External ''dmsetup'') else None)\<rparr>"

text \<open>The calls that a run adds to the ones made before it.\<close>

definition new_calls :: "world \<Rightarrow> 'a res \<Rightarrow> event list" where
  "new_calls w r = drop (length (trace w)) (trace (snd r))"

text \<open>
  A pattern of calls in order: a call that is made when the run gets that far, or a call
  that may be left out. A list of calls matches a pattern when it is an initial part of
  the pattern, with any of the optional calls left out.
\<close>

datatype step = Must event | May event

fun matches_prefix :: "event list \<Rightarrow> step list \<Rightarrow> bool" where
  "matches_prefix [] ps = True"
| "matches_prefix (x # xs) [] = False"
| "matches_prefix (x # xs) (Must e # ps) = (x = e \<and> matches_prefix xs ps)"
| "matches_prefix (x # xs) (May e # ps) =
     ((x = e \<and> matches_prefix xs ps) \<or> matches_prefix (x # xs) ps)"

definition follows :: "(world \<Rightarrow> 'a res) \<Rightarrow> step list \<Rightarrow> bool" where
  "follows m ps = (\<forall>w. \<exists>xs. trace (snd (m w)) = trace w @ xs \<and> matches_prefix xs ps)"

text \<open>The id that \<^verbatim>\<open>_find_src_volume\<close> looks up: what follows the first colon.\<close>

definition src_volume_id :: "volume \<Rightarrow> string" where
  "src_volume_id v =
     (case migration_status v of
        None \<Rightarrow> []
      | Some ms \<Rightarrow> (case nth_opt (split_on CHR '':'' ms) 1 of None \<Rightarrow> [] | Some i \<Rightarrow> i))"

text \<open>The source record that a look-up returned, if it returned one.\<close>

definition found :: "(volume option) res \<Rightarrow> volume option" where
  "found r = (case fst r of Inl e \<Rightarrow> None | Inr s \<Rightarrow> s)"

text \<open>The order of the calls of a finalization.\<close>

definition finalize_pattern :: "env \<Rightarrow> volume \<Rightarrow> volume option \<Rightarrow> step list" where
  "finalize_pattern E volume src_volume =
     [Must (DbGetById (src_volume_id volume)),
      Must (DbSave (volume\<lparr>migration_status := Some ''completing''\<rparr>)),
      Must (DmSuspend (dm_target_name volume)),
      Must (DmLoad (dm_target_name volume)
              (linear_table E (volume\<lparr>migration_status := Some ''completing''\<rparr>))),
      Must (DmResume (dm_target_name volume)),
      Must (LvDelete (metadata_dev_name volume))]
     @ (case src_volume of
          None \<Rightarrow> []
        | Some s \<Rightarrow>
            [Must (GetConnector (vol_id s)), May (DisconnectVolume (vol_id s)),
             Must (RpcRemoveExport (vol_id s)), Must (RpcDeleteVolume (vol_id s))])
     @ [Must (DbSave (volume\<lparr>migration_status := Some ''success''\<rparr>))]"

definition vol_z :: volume where
  "vol_z = vol_a\<lparr>vol_id := ''zz'', name_id := ''zz''\<rparr>"

text \<open>
  Calls attempted one after the other, after the calls \<open>tr\<close>, until one raises: the calls
  made, and what was raised.
\<close>

fun attempt :: "env \<Rightarrow> event list \<Rightarrow> event list \<Rightarrow> event list \<times> error option" where
  "attempt E tr [] = ([], None)"
| "attempt E tr (e # es) =
     (case raises E tr e of
        Some err \<Rightarrow> ([e], Some err)
      | None \<Rightarrow> (case attempt E (tr @ [e]) es of (made, r) \<Rightarrow> (e # made, r)))"

text \<open>The calls of the handler of \<^verbatim>\<open>create_volume\<close>, for the connector of the source \<open>c\<close>.\<close>

definition cleanup_calls :: "volume \<Rightarrow> string \<Rightarrow> event list" where
  "cleanup_calls volume c =
     [DbSave (volume\<lparr>status := ''error'', migration_status := Some ''error''\<rparr>),
      DmRemove (dm_target_name volume),
      DisconnectVolume c,
      LvDelete (metadata_dev_name volume),
      BaseDeleteVolume (vol_id volume)]"

definition vol_m :: volume where
  "vol_m = vol_a\<lparr>vol_id := ''n1'', name_id := ''n1'', host := Some ''hostB@lvm'',
                 status := ''creating'', migration_status := Some ''migrating''\<rparr>"

definition vol_o :: volume where
  "vol_o = vol_a\<lparr>migration_status := Some ''target:n1''\<rparr>"

definition overlay_fails_env :: env where
  "overlay_fails_env =
     quiet_env\<lparr>raises := (\<lambda>tr e. case e of DmCreate n t \<Rightarrow> Some (External ''dmsetup create'')
                                  | _ \<Rightarrow> None)\<rparr>"

definition cleanup_fails_env :: env where
  "cleanup_fails_env =
     quiet_env\<lparr>raises := (\<lambda>tr e. case e of DmCreate n t \<Rightarrow> Some (External ''dmsetup create'')
                                  | LvDelete n \<Rightarrow> Some (External ''lvremove'')
                                  | _ \<Rightarrow> None)\<rparr>"

definition connect_fails_env :: env where
  "connect_fails_env =
     quiet_env\<lparr>raises := (\<lambda>tr e. case e of ConnectVolume c \<Rightarrow> Some (External ''iscsi login'')
                                  | _ \<Rightarrow> None)\<rparr>"

text \<open>The assignments to \<^verbatim>\<open>migration_status\<close> that a run adds.\<close>

definition new_migs :: "world \<Rightarrow> 'a res \<Rightarrow> (string \<times> string option \<times> string option) list" where
  "new_migs w r = drop (length (mig_log w)) (mig_log (snd r))"

text \<open>
  The graph of the specification:
  none \<open>\<rightarrow>\<close> starting or migrating \<open>\<rightarrow>\<close> target:X \<open>\<rightarrow>\<close> completing \<open>\<rightarrow>\<close> success or error.
\<close>

definition spec_edge :: "string option \<Rightarrow> string option \<Rightarrow> bool" where
  "spec_edge a b =
     ((a = None \<and> (b = Some ''starting'' \<or> b = Some ''migrating''))
      \<or> ((a = Some ''starting'' \<or> a = Some ''migrating'') \<and> is_target b)
      \<or> (is_target a \<and> b = Some ''completing'')
      \<or> (a = Some ''completing'' \<and> (b = Some ''success'' \<or> b = Some ''error'')))"

text \<open>
  What the driver does instead, operation by operation, as (record id, old value, new
  value). Attaching: the origin goes from whatever it was to \<^verbatim>\<open>target:X\<close>, and from there
  to \<^verbatim>\<open>error\<close> when the wait fails.
\<close>

definition attach_edge :: "volume \<Rightarrow> string \<times> string option \<times> string option \<Rightarrow> bool" where
  "attach_edge volume x =
     (case x of (i, a, b) \<Rightarrow>
        i = vol_id volume
        \<and> ((a = migration_status volume \<and> is_target b) \<or> (is_target a \<and> b = Some ''error'')))"

text \<open>Creating: \<^verbatim>\<open>starting\<close> or \<^verbatim>\<open>migrating\<close> to \<^verbatim>\<open>error\<close>, when the \<^verbatim>\<open>try\<close> block fails.\<close>

definition create_edge :: "volume \<Rightarrow> string \<times> string option \<times> string option \<Rightarrow> bool" where
  "create_edge volume x =
     (case x of (i, a, b) \<Rightarrow>
        i = vol_id volume \<and> a = migration_status volume
        \<and> (a = Some ''starting'' \<or> a = Some ''migrating'') \<and> b = Some ''error'')"

text \<open>
  Detaching: \<^verbatim>\<open>target:X\<close> to none (the attachment is rolled back), or the record that the
  pointer names goes from whatever it was to \<^verbatim>\<open>migrating\<close>.
\<close>

definition detach_edge :: "volume \<Rightarrow> string \<times> string option \<times> string option \<Rightarrow> bool" where
  "detach_edge volume x =
     (case x of (i, a, b) \<Rightarrow>
        (i = vol_id volume \<and> a = migration_status volume \<and> is_target a \<and> b = None)
        \<or> (i = src_volume_id volume \<and> b = Some ''migrating''))"

text \<open>The monitor: \<^verbatim>\<open>target:X\<close> to \<^verbatim>\<open>completing\<close> to \<^verbatim>\<open>success\<close>.\<close>

definition monitor_edge :: "string \<times> string option \<times> string option \<Rightarrow> bool" where
  "monitor_edge x =
     (case x of (i, a, b) \<Rightarrow>
        (is_target a \<and> b = Some ''completing'')
        \<or> (a = Some ''completing'' \<and> b = Some ''success''))"

text \<open>A deployment where the connector of the source cannot be obtained.\<close>

definition connector_fails_env :: env where
  "connector_fails_env =
     quiet_env\<lparr>raises := (\<lambda>tr e. if e = GetConnector ''zz''
                                  then Some (External ''connector'') else None)\<rparr>"





text \<open>A record with this id is among the persisted records.\<close>

definition present :: "string \<Rightarrow> volume list \<Rightarrow> bool" where
  "present i rows = list_ex (\<lambda>r. vol_id r = i) rows"

text \<open>
  In a list of writes, with the records as persisted after each: the record \<open>i\<close> is there
  after every write that comes before the first destruction of \<open>i\<close>.
\<close>

fun kept :: "string \<Rightarrow> (event \<times> volume list) list \<Rightarrow> bool" where
  "kept i [] = True"
| "kept i (x # xs) = (fst x = DbDestroy i \<or> (present i (snd x) \<and> kept i xs))"

text \<open>A part of the driver that keeps the record \<open>i\<close>, if it is there, until it destroys it.\<close>

definition keeps :: "string \<Rightarrow> (world \<Rightarrow> 'a res) \<Rightarrow> bool" where
  "keeps i m =
     (\<forall>w. \<exists>ys. db_log (snd (m w)) = db_log w @ ys
        \<and> (present i (db w) \<longrightarrow>
             kept i ys
             \<and> (present i (db (snd (m w))) \<or> list_ex (\<lambda>x. fst x = DbDestroy i) ys)))"





section \<open>Identity switch\<close>

lemma switch_records_eq:
  "switch_records (a, b) =
     (a\<lparr>name_id := name_id b, host := host b, cluster_name := cluster_name b,
        availability_zone := availability_zone b, provider_id := provider_id b,
        provider_location := provider_location b, provider_auth := provider_auth b,
        provider_geometry := provider_geometry b\<rparr>,
      b\<lparr>name_id := name_id a, host := host a, cluster_name := cluster_name a,
        availability_zone := availability_zone a, provider_id := provider_id a,
        provider_location := provider_location a, provider_auth := provider_auth a,
        provider_geometry := provider_geometry a\<rparr>)"
  by (simp add: switch_records_def switched_fields_def switch_field_def switch_name_id_def)

lemma switch_records_twice: "switch_records (switch_records (a, b)) = (a, b)"
  by (simp add: switch_records_eq)

lemma switch_records_get_field:
  "get_field (fst (switch_records (a, b))) f = get_field b f"
  "get_field (snd (switch_records (a, b))) f = get_field a f"
  by (cases f; simp add: switch_records_eq)+

text \<open>
  C9. The identity switch of \<^verbatim>\<open>_switch_volumes\<close> is an involution: switching two records
  twice gives both records back as they were. One switch leaves the \<^verbatim>\<open>id\<close> of each
  record alone, exchanges \<^verbatim>\<open>name_id\<close> and each of the seven placement fields, and
  changes no other field.
\<close>

theorem switch_records_involution:
  "switch_records (switch_records (a, b)) = (a, b)
   \<and> vol_id (fst (switch_records (a, b))) = vol_id a
   \<and> vol_id (snd (switch_records (a, b))) = vol_id b
   \<and> name_id (fst (switch_records (a, b))) = name_id b
   \<and> name_id (snd (switch_records (a, b))) = name_id a
   \<and> (\<forall>f. get_field (fst (switch_records (a, b))) f = get_field b f)
   \<and> (\<forall>f. get_field (snd (switch_records (a, b))) f = get_field a f)
   \<and> other_fields (fst (switch_records (a, b))) = other_fields a
   \<and> other_fields (snd (switch_records (a, b))) = other_fields b"
proof -
  have ids: "vol_id (fst (switch_records (a, b))) = vol_id a"
    "vol_id (snd (switch_records (a, b))) = vol_id b"
    by (simp_all add: switch_records_eq)
  have names: "name_id (fst (switch_records (a, b))) = name_id b"
    "name_id (snd (switch_records (a, b))) = name_id a"
    by (simp_all add: switch_records_eq)
  have rest: "other_fields (fst (switch_records (a, b))) = other_fields a"
    "other_fields (snd (switch_records (a, b))) = other_fields b"
    by (simp_all add: switch_records_eq other_fields_def)
  show ?thesis
    using switch_records_twice ids names rest switch_records_get_field by simp
qed

section \<open>Plain provisioning\<close>

text \<open>
  C10. For a volume whose \<^verbatim>\<open>migration_status\<close> is neither \<^verbatim>\<open>starting\<close> nor
  \<^verbatim>\<open>migrating\<close>, \<^verbatim>\<open>create_volume\<close> calls the base driver's \<^verbatim>\<open>create_volume\<close> and
  nothing else: no metadata device, no overlay, no source connection, no control message,
  no write to the database and no assignment to \<^verbatim>\<open>migration_status\<close>; it returns the
  volume object unchanged, or fails with what the base driver raised.
\<close>

theorem create_volume_plain:
  assumes "migration_status volume \<noteq> Some ''starting''"
    and "migration_status volume \<noteq> Some ''migrating''"
  shows "trace (snd (create_volume E volume w)) = trace w @ [BaseCreateVolume (vol_id volume)]
    \<and> db (snd (create_volume E volume w)) = db w
    \<and> db_log (snd (create_volume E volume w)) = db_log w
    \<and> mig_log (snd (create_volume E volume w)) = mig_log w
    \<and> fst (create_volume E volume w) =
        (case raises E (trace w) (BaseCreateVolume (vol_id volume)) of
           Some e \<Rightarrow> Inl e
         | None \<Rightarrow> Inr volume)"
  using assms
  by (simp add: create_volume_def try_block_def create_overlay_def call_def Let_def
      split: option.splits)

theorem create_volume_plain_witness:
  "migration_status vol_a \<noteq> Some ''starting''
   \<and> migration_status vol_a \<noteq> Some ''migrating''
   \<and> trace (snd (create_volume quiet_env vol_a (world_of [vol_a]))) = [BaseCreateVolume ''a1'']
   \<and> db (snd (create_volume quiet_env vol_a (world_of [vol_a]))) = [vol_a]
   \<and> fst (create_volume quiet_env vol_a (world_of [vol_a])) = Inr vol_a"
  using create_volume_plain [of vol_a quiet_env "world_of [vol_a]"]
  by (simp add: vol_a_def quiet_env_def world_of_def)

section \<open>What a part of the driver adds to a history\<close>

lemma appendsI: "(\<And>w. \<exists>xs. g (snd (m w)) = g w @ xs \<and> list_all P xs) \<Longrightarrow> appends g P m"
  by (simp add: appends_def)

lemma appendsD: "appends g P m \<Longrightarrow> \<exists>xs. g (snd (m w)) = g w @ xs \<and> list_all P xs"
  by (simp add: appends_def)

lemma appends_ret: "appends g P (ret x)"
  by (simp add: appends_def ret_def)

lemma appends_raise: "appends g P (raise e)"
  by (simp add: appends_def raise_def)

lemma appends_lift: "appends g P (lift r)"
  by (simp add: appends_def lift_def)

lemma appends_item: "appends g P (item d k)"
  by (simp add: item_def appends_ret appends_raise split: option.split)

lemma appends_then_do:
  assumes m: "appends g P m" and f: "\<And>x. appends g P (f x)"
  shows "appends g P (then_do m f)"
proof (rule appendsI)
  fix w
  obtain xs where xs: "g (snd (m w)) = g w @ xs" "list_all P xs"
    using appendsD [OF m] by blast
  show "\<exists>zs. g (snd (then_do m f w)) = g w @ zs \<and> list_all P zs"
  proof (cases "m w")
    case (Pair r w')
    show ?thesis
    proof (cases r)
      case (Inl e)
      with Pair xs show ?thesis by (auto simp: then_do_def)
    next
      case (Inr x)
      obtain ys where ys: "g (snd (f x w')) = g w' @ ys" "list_all P ys"
        using appendsD [OF f] by blast
      with Pair Inr xs have "g (snd (then_do m f w)) = g w @ (xs @ ys)" "list_all P (xs @ ys)"
        by (simp_all add: then_do_def)
      then show ?thesis by blast
    qed
  qed
qed

lemma appends_trace_call: "P e \<Longrightarrow> appends trace P (call E e)"
  by (simp add: appends_def call_def Let_def split: option.split)

lemma appends_trace_set_migration_status: "appends trace P (set_migration_status v x)"
  by (simp add: appends_def set_migration_status_def)

lemma appends_trace_save: "P (DbSave v) \<Longrightarrow> appends trace P (save E v)"
  by (simp add: appends_def save_def then_do_def call_def write_db_def Let_def split: option.split)

lemma appends_trace_create:
  "(\<And>i. P (DbCreate (v\<lparr>vol_id := i, name_id := i\<rparr>))) \<Longrightarrow> appends trace P (create E v)"
  by (simp add: appends_def create_def then_do_def call_def write_db_def Let_def split: option.split)

lemma appends_trace_destroy: "P (DbDestroy (vol_id v)) \<Longrightarrow> appends trace P (destroy E v)"
  by (simp add: appends_def destroy_def then_do_def call_def write_db_def Let_def split: option.split)

lemma appends_trace_refresh: "P (DbRefresh (vol_id v)) \<Longrightarrow> appends trace P (refresh E v)"
  by (simp add: appends_def refresh_def then_do_def call_def Let_def split: option.split)

lemma appends_trace_switch_volumes:
  "(\<And>x. P (DbSave x)) \<Longrightarrow> appends trace P (switch_volumes E v other)"
  by (auto simp: switch_volumes_def Let_def split: option.split
      intro!: appends_then_do appends_trace_save appends_ret appends_raise)

lemma polled_refl: "polled w w"
  by (simp add: polled_def)

lemma polled_trans: "polled w w1 \<Longrightarrow> polled w1 w2 \<Longrightarrow> polled w w2"
  by (auto simp: polled_def)

lemma polled_time_now: "polled w (snd (time_now w))"
  by (simp add: polled_def time_now_def is_poll_def)

lemma polled_sleep: "polled w (sleep E n w)"
  by (simp add: polled_def sleep_def is_poll_def)

lemma polled_refresh: "polled w (snd (refresh E v w))"
  by (simp add: polled_def refresh_def then_do_def call_def Let_def is_poll_def
      split: option.split)

lemma wait_available_cases:
  "\<exists>nv' w'. polled w w' \<and>
     (wait_available E d t nv v w = (Inr nv', w')
      \<or> (\<exists>e. wait_available E d t nv v w = (Inl e, w'))
      \<or> wait_available E d t nv v w = wait_failed E nv' v w')"
proof (induction E d t nv v w rule: wait_available.induct)
  case (1 E deadline tries new_volume volume w)
  show ?case
  proof (cases "status new_volume = ''available''")
    case True
    then have "wait_available E deadline tries new_volume volume w = (Inr new_volume, w)"
      by (simp add: wait_available.simps [of E deadline tries new_volume volume w])
    then show ?thesis using polled_refl by blast
  next
    case False
    define w1 where "w1 = snd (time_now w)"
    have p1: "polled w w1" by (simp add: w1_def polled_time_now)
    show ?thesis
    proof (cases "deadline < fst (time_now w) \<or> status new_volume = ''error''")
      case True
      with False have "wait_available E deadline tries new_volume volume w
          = wait_failed E new_volume volume w1"
        by (simp add: wait_available.simps [of E deadline tries new_volume volume w] Let_def w1_def)
      then show ?thesis using p1 by blast
    next
      case nf: False
      define w2 where "w2 = sleep E ((tries + 1)\<^sup>2) w1"
      obtain r w3 where rf: "refresh E new_volume w2 = (r, w3)"
        by (cases "refresh E new_volume w2")
      have "polled w2 w3" using polled_refresh [of w2 E new_volume] rf by simp
      then have p3: "polled w w3"
        using p1 polled_sleep [of w1 E "(tries + 1)\<^sup>2"] polled_trans w2_def by blast
      show ?thesis
      proof (cases r)
        case (Inl e)
        with False nf rf have "wait_available E deadline tries new_volume volume w = (Inl e, w3)"
          by (simp add: wait_available.simps [of E deadline tries new_volume volume w]
              Let_def w1_def w2_def)
        then show ?thesis using p3 by blast
      next
        case (Inr nv2)
        with False nf rf have eq: "wait_available E deadline tries new_volume volume w
            = wait_available E deadline (tries + 1) nv2 volume w3"
          by (simp add: wait_available.simps [of E deadline tries new_volume volume w]
              Let_def w1_def w2_def)
        have "(r, w3) = refresh E new_volume (sleep E ((tries + 1)\<^sup>2) w1)"
          using rf by (simp add: w2_def)
        from "1.IH" [OF False refl w1_def nf this Inr]
        obtain nv' w' where "polled w3 w'"
          and "wait_available E deadline (tries + 1) nv2 volume w3 = (Inr nv', w')
            \<or> (\<exists>e. wait_available E deadline (tries + 1) nv2 volume w3 = (Inl e, w'))
            \<or> wait_available E deadline (tries + 1) nv2 volume w3 = wait_failed E nv' volume w'"
          by blast
        then show ?thesis using eq p3 polled_trans by metis
      qed
    qed
  qed
qed

lemma appends_trace_wait_failed:
  assumes "\<And>e. \<not> is_create e \<Longrightarrow> P e"
  shows "appends trace P (wait_failed E nv v)"
  unfolding wait_failed_def
  apply (intro appends_then_do appends_trace_destroy appends_trace_save appends_trace_set_migration_status)
      apply (auto simp: appends_def call_def Let_def assms is_create_def raise_def split: option.split error.split sum.split)
  done

lemma is_poll_not_create: "is_poll e \<Longrightarrow> \<not> is_create e"
  by (cases e) (simp_all add: is_poll_def is_create_def)

lemma appends_trace_wait_available:
  assumes P: "\<And>e. \<not> is_create e \<Longrightarrow> P e"
  shows "appends trace P (wait_available E d t nv v)"
proof (rule appendsI)
  fix w
  obtain nv' w' where p: "polled w w'"
    and c: "wait_available E d t nv v w = (Inr nv', w')
      \<or> (\<exists>e. wait_available E d t nv v w = (Inl e, w'))
      \<or> wait_available E d t nv v w = wait_failed E nv' v w'"
    using wait_available_cases by blast
  from p obtain polls where polls: "trace w' = trace w @ polls" "list_all is_poll polls"
    by (auto simp: polled_def)
  then have lp: "list_all P polls"
    using P is_poll_not_create by (auto simp: list_all_iff)
  obtain xs where xs: "trace (snd (wait_failed E nv' v w')) = trace w' @ xs" "list_all P xs"
    using appendsD [OF appends_trace_wait_failed [of P E nv' v], OF P] by blast
  from c show "\<exists>zs. trace (snd (wait_available E d t nv v w)) = trace w @ zs \<and> list_all P zs"
  proof (elim disjE exE)
    assume "wait_available E d t nv v w = (Inr nv', w')"
    with polls lp show ?thesis by auto
  next
    fix e assume "wait_available E d t nv v w = (Inl e, w')"
    with polls lp show ?thesis by auto
  next
    assume "wait_available E d t nv v w = wait_failed E nv' v w'"
    with polls lp xs have "trace (snd (wait_available E d t nv v w)) = trace w @ (polls @ xs)"
      "list_all P (polls @ xs)" by simp_all
    then show ?thesis by blast
  qed
qed

lemma role_ok_other: "\<not> is_create e \<Longrightarrow> role_ok volume e"
  by (cases e) (simp_all add: role_ok_def is_create_def)

lemma appends_trace_initialize_remote:
  "appends trace (role_ok volume) (initialize_remote E volume connector)"
  unfolding initialize_remote_def
  by (intro appends_then_do appends_trace_call appends_item appends_lift appends_trace_create
        appends_trace_set_migration_status appends_trace_save appends_trace_refresh
        appends_ret appends_trace_switch_volumes
        appends_trace_wait_available [OF role_ok_other])
     (auto simp: role_ok_def new_volume_object_def migration_role_def
        appends_def time_now_def raise_def ret_def split: option.split)

lemma appends_trace_initialize_connection:
  "appends trace (role_ok volume) (initialize_connection E volume connector)"
  unfolding initialize_connection_def
  by (intro appends_then_do appends_item appends_lift appends_ret)
     (auto intro!: appends_then_do appends_trace_call appends_ret
        appends_trace_initialize_remote simp: role_ok_def)

text \<open>
  C4. In \<^verbatim>\<open>initialize_connection\<close>, every destination record that is created carries a
  \<^verbatim>\<open>migration_status\<close> that depends on the status of the origin volume only:
  \<^verbatim>\<open>reserved\<close> gives \<^verbatim>\<open>migrating\<close>, \<^verbatim>\<open>in-use\<close> gives \<^verbatim>\<open>starting\<close>, anything else
  gives none; the record is created with status \<^verbatim>\<open>creating\<close>. (The local case creates
  no record.)
\<close>

theorem destination_role:
  "\<exists>evs. trace (snd (initialize_connection E volume connector w)) = trace w @ evs
     \<and> (\<forall>nv. DbCreate nv \<in> set evs \<longrightarrow>
           migration_status nv =
             (if status volume = ''reserved'' then Some ''migrating''
              else if status volume = ''in-use'' then Some ''starting''
              else None)
           \<and> status nv = ''creating'')"
proof -
  obtain evs where evs: "trace (snd (initialize_connection E volume connector w)) = trace w @ evs"
    "list_all (role_ok volume) evs"
    using appendsD [OF appends_trace_initialize_connection] by blast
  from evs(2) have "\<forall>nv. DbCreate nv \<in> set evs \<longrightarrow>
           migration_status nv =
             (if status volume = ''reserved'' then Some ''migrating''
              else if status volume = ''in-use'' then Some ''starting''
              else None)
           \<and> status nv = ''creating''"
    by (auto simp: list_all_iff role_ok_def)
  with evs(1) show ?thesis by blast
qed

section \<open>Running the model on concrete inputs\<close>

lemma then_do_Inr: "m w = (Inr x, w') \<Longrightarrow> then_do m f w = f x w'"
  by (simp add: then_do_def)

lemma then_do_Inl: "m w = (Inl e, w') \<Longrightarrow> then_do m f w = (Inl e, w')"
  by (simp add: then_do_def)

lemma call_returns:
  "raises E (trace w) e = None \<Longrightarrow>
   call E e w = (Inr (), w\<lparr>trace := trace w @ [e], now := now w + elapse E (trace w) e\<rparr>)"
  by (simp add: call_def)

lemma call_raises:
  "raises E (trace w) e = Some err \<Longrightarrow>
   call E e w = (Inl err, w\<lparr>trace := trace w @ [e], now := now w + elapse E (trace w) e\<rparr>)"
  by (simp add: call_def)

lemma save_returns:
  "raises E (trace w) (DbSave v) = None \<Longrightarrow>
   save E v w =
     (Inr (), w\<lparr>trace := trace w @ [DbSave v], now := now w + elapse E (trace w) (DbSave v),
                db := db_put (db w) v, db_log := db_log w @ [(DbSave v, db_put (db w) v)]\<rparr>)"
  by (simp add: save_def then_do_def call_def write_db_def)

lemma create_returns:
  "v' = v\<lparr>vol_id := new_uuid E (trace w), name_id := new_uuid E (trace w)\<rparr> \<Longrightarrow>
   raises E (trace w) (DbCreate v') = None \<Longrightarrow>
   create E v w =
     (Inr v', w\<lparr>trace := trace w @ [DbCreate v'], now := now w + elapse E (trace w) (DbCreate v'),
                db := db_put (db w) v', db_log := db_log w @ [(DbCreate v', db_put (db w) v')]\<rparr>)"
  by (simp add: create_def then_do_def call_def write_db_def Let_def)

lemma destroy_returns:
  "raises E (trace w) (DbDestroy (vol_id v)) = None \<Longrightarrow>
   destroy E v w =
     (Inr (), w\<lparr>trace := trace w @ [DbDestroy (vol_id v)],
                now := now w + elapse E (trace w) (DbDestroy (vol_id v)),
                db := db_delete (db w) (vol_id v),
                db_log := db_log w @ [(DbDestroy (vol_id v), db_delete (db w) (vol_id v))]\<rparr>)"
  by (simp add: destroy_def then_do_def call_def write_db_def)

lemma refresh_returns:
  "raises E (trace w) (DbRefresh (vol_id v)) = None \<Longrightarrow>
   refresh E v w =
     (Inr ((reload E (trace w) (now w) v)\<lparr>vol_id := vol_id v\<rparr>),
      w\<lparr>trace := trace w @ [DbRefresh (vol_id v)],
        now := now w + elapse E (trace w) (DbRefresh (vol_id v))\<rparr>)"
  by (simp add: refresh_def then_do_def call_def)

lemma wait_available_done:
  "status nv = ''available'' \<Longrightarrow> wait_available E d t nv v w = (Inr nv, w)"
  by (simp add: wait_available.simps [of E d t nv v w])

lemma wait_available_fail:
  "status nv \<noteq> ''available'' \<Longrightarrow> d < now w \<or> status nv = ''error'' \<Longrightarrow>
   wait_available E d t nv v w = wait_failed E nv v (snd (time_now w))"
  by (simp add: wait_available.simps [of E d t nv v w] time_now_def)

lemma wait_available_retry:
  "status nv \<noteq> ''available'' \<Longrightarrow> \<not> d < now w \<Longrightarrow> status nv \<noteq> ''error'' \<Longrightarrow>
   wait_available E d t nv v w =
     (case refresh E nv (sleep E ((t + 1)\<^sup>2) (snd (time_now w))) of
        (Inl e, w2) \<Rightarrow> (Inl e, w2)
      | (Inr nv', w2) \<Rightarrow> wait_available E d (t + 1) nv' v w2)"
  by (simp add: wait_available.simps [of E d t nv v w] time_now_def)

lemma quiet_env_fields:
  "raises quiet_env tr e = None"
  "elapse quiet_env tr e = 0"
  "status_line quiet_env tr n = kernel_status_line"
  "reload quiet_env tr t v = v"
  "new_uuid quiet_env tr = ''n1''"
  "services quiet_env h =
     \<lparr>srv_host = Some ''hostB@lvm'', srv_availability_zone = Some ''nova'', srv_cluster_name = None\<rparr>"
  "local_path quiet_env v = ''/dev/vg/'' @ volume_name v"
  "extract_host quiet_env = example_extract_host"
  "owned_by quiet_env h v = (host v = Some h)"
  "handle_path quiet_env c = ''/dev/sdb''"
  "conf_host quiet_env = ''hostB''"
  "capabilities quiet_env = [(''volume_backend_name'', ''lvm'')]"
  by (simp_all add: quiet_env_def)

lemma rpc_down_env_fields:
  "raises rpc_down_env tr e = (case e of RpcCreateVolume i \<Rightarrow> Some (External ''rpc'') | _ \<Rightarrow> None)"
  "elapse rpc_down_env tr e = 0"
  "new_uuid rpc_down_env tr = ''n1''"
  "services rpc_down_env h =
     \<lparr>srv_host = Some ''hostB@lvm'', srv_availability_zone = Some ''nova'', srv_cluster_name = None\<rparr>"
  "extract_host rpc_down_env = example_extract_host"
  by (simp_all add: rpc_down_env_def quiet_env_def)

lemma vol_a_fields:
  "vol_id vol_a = ''a1''" "name_id vol_a = ''a1''" "host vol_a = Some ''hostA@lvm''"
  "status vol_a = ''in-use''" "migration_status vol_a = None" "vol_size vol_a = 1"
  "user_id vol_a = ''u''" "project_id vol_a = ''p''"
  by (simp_all add: vol_a_def)

lemma world_of_fields:
  "db (world_of rows) = rows" "trace (world_of rows) = []" "now (world_of rows) = 0"
  "mig_log (world_of rows) = []" "db_log (world_of rows) = []"
  by (simp_all add: world_of_def)

lemmas run_simps =
  then_do_Inr then_do_Inl call_returns call_raises save_returns create_returns destroy_returns
  refresh_returns wait_available_done wait_available_fail wait_available_retry
  initialize_connection_def [THEN fun_cong] initialize_remote_def [THEN fun_cong]
  switch_volumes_def [THEN fun_cong] wait_failed_def [THEN fun_cong]
  item_def [THEN fun_cong] lift_def ret_def raise_def nth_opt_def
  set_migration_status_def time_now_def sleep_def db_put_def db_delete_def db_lookup_def
  volume_name_def dm_target_name_def metadata_dev_name_def
  example_extract_host_def world_of_fields vol_a_fields

lemma rpc_down_run:
  "trace (snd (initialize_connection rpc_down_env vol_a [(''host'', ''hostB'')] (world_of [vol_a])))
   = [TargetInitializeConnection ''a1'', ServiceGetByArgs ''hostB@lvm'', DbCreate dest_b,
      DbSave (vol_a\<lparr>migration_status := Some ''target:n1''\<rparr>), RpcCreateVolume ''n1'']"
  by (simp add: run_simps rpc_down_env_fields dest_b_def new_volume_object_def migration_role_def)

theorem destination_role_witness:
  "DbCreate dest_b \<in> set (trace (snd (initialize_connection rpc_down_env vol_a
       [(''host'', ''hostB'')] (world_of [vol_a]))))
   \<and> status vol_a = ''in-use''
   \<and> migration_status dest_b = Some ''starting''"
proof -
  obtain evs where evs:
    "trace (snd (initialize_connection rpc_down_env vol_a [(''host'', ''hostB'')] (world_of [vol_a])))
       = trace (world_of [vol_a]) @ evs"
    and role: "\<forall>nv. DbCreate nv \<in> set evs \<longrightarrow>
           migration_status nv =
             (if status vol_a = ''reserved'' then Some ''migrating''
              else if status vol_a = ''in-use'' then Some ''starting''
              else None)
           \<and> status nv = ''creating''"
    using destination_role [of rpc_down_env vol_a "[(''host'', ''hostB'')]" "world_of [vol_a]"]
    by blast
  from evs have mem: "DbCreate dest_b \<in> set evs"
    by (auto simp: rpc_down_run world_of_fields)
  with role have "migration_status dest_b = Some ''starting''"
    by (simp add: vol_a_fields)
  with mem evs show ?thesis
    by (simp add: vol_a_fields world_of_fields)
qed

section \<open>The monitor's completion test\<close>

lemma split_on_no_sep: "c \<notin> set s \<Longrightarrow> split_on c s = [s]"
  by (induction s) auto

lemma split_on_first: "c \<notin> set h \<Longrightarrow> split_on c (h @ c # t) = h # split_on c t"
  by (induction h) auto

lemma hydration_complete_pair:
  assumes "CHR ''/'' \<notin> set h" and "CHR ''/'' \<notin> set t"
  shows "hydration_complete (t0 # t1 # t2 # t3 # t4 # t5 # (h @ CHR ''/'' # t) # e # rest)
         = Inr (h = t \<and> e = ''0'')"
  using assms by (simp add: hydration_complete_def nth_opt_def split_on_first split_on_no_sep)

text \<open>
  C1 (amended). For a volume the monitor examines, when \<^verbatim>\<open>dmsetup status\<close> returns a line
  whose third token is \<^verbatim>\<open>clone\<close>, whose seventh token (position 6) is \<^verbatim>\<open>h/t\<close> and whose
  eighth token (position 7) is \<open>e\<close>: the monitor runs the finalization iff \<open>h = t\<close> and
  \<open>e\<close> is exactly \<^verbatim>\<open>0\<close>; otherwise it does nothing after the status query, so the volume's
  state stays as it was.
\<close>

theorem monitor_finalizes_iff:
  assumes ok: "raises E (trace w) (DmStatus (dm_target_name volume)) = None"
    and line: "tokens (status_line E (trace w) (dm_target_name volume))
                 = t0 # t1 # ''clone'' # t3 # t4 # t5 # (h @ ''/'' @ t) # e # rest"
    and h: "CHR ''/'' \<notin> set h" and t: "CHR ''/'' \<notin> set t"
    and w1: "w1 = w\<lparr>trace := trace w @ [DmStatus (dm_target_name volume)],
                      now := now w + elapse E (trace w) (DmStatus (dm_target_name volume))\<rparr>"
  shows "monitor_volume E volume w =
           (if h = t \<and> e = ''0'' then finalize E volume w1 else (Inr (), w1))"
  using ok w1
  by (simp add: monitor_volume_def dmsetup_status_def then_do_def call_def ret_def line
      hydration_complete_pair [OF h t] nth_opt_def)

lemma tokens_kernel_status_line:
  "tokens kernel_status_line =
     [''0'', ''2097152'', ''clone'', ''8'', ''30/262144'', ''8'', ''262144/262144'', ''0'',
      ''0'', ''4'', ''hydration_threshold'', ''1'', ''hydration_batch_size'', ''1'', ''rw'']"
  by (simp add: tokens_def kernel_status_line_def is_space_def)

lemma tokens_partial_status_line:
  "tokens partial_status_line =
     [''0'', ''2097152'', ''clone'', ''8'', ''30/262144'', ''8'', ''30/262144'', ''0'',
      ''0'', ''4'', ''hydration_threshold'', ''1'', ''hydration_batch_size'', ''1'', ''rw'']"
  by (simp add: tokens_def partial_status_line_def is_space_def)

lemma tokens_spec_status_line:
  "tokens spec_status_line =
     [''0'', ''2097152'', ''clone'', ''8'', ''262144/262144'', ''0'', ''0'', ''4'',
      ''hydration_threshold'', ''1'', ''hydration_batch_size'', ''1'', ''rw'']"
  by (simp add: tokens_def spec_status_line_def is_space_def)

lemma status_env_fields:
  "raises (status_env line) tr e = None"
  "elapse (status_env line) tr e = 0"
  "status_line (status_env line) tr n = line"
  "local_path (status_env line) v = ''/dev/vg/'' @ volume_name v"
  by (simp_all add: status_env_def quiet_env_def)

lemma vol_t_fields:
  "vol_id vol_t = ''a1''" "name_id vol_t = ''a1''" "host vol_t = Some ''hostB@lvm''"
  "status vol_t = ''in-use''" "migration_status vol_t = Some ''target:zz''" "vol_size vol_t = 1"
  by (simp_all add: vol_t_def vol_a_def)

theorem monitor_finalizes_iff_witness:
  "monitor_volume (status_env kernel_status_line) vol_t (world_of [vol_t])
     = finalize (status_env kernel_status_line) vol_t
         ((world_of [vol_t])\<lparr>trace := [DmStatus ''volume-a1-handle''], now := 0\<rparr>)
   \<and> monitor_volume (status_env partial_status_line) vol_t (world_of [vol_t])
     = (Inr (), (world_of [vol_t])\<lparr>trace := [DmStatus ''volume-a1-handle''], now := 0\<rparr>)"
proof -
  have a: "monitor_volume (status_env kernel_status_line) vol_t (world_of [vol_t])
     = finalize (status_env kernel_status_line) vol_t
         ((world_of [vol_t])\<lparr>trace := [DmStatus ''volume-a1-handle''], now := 0\<rparr>)"
    using monitor_finalizes_iff [of "status_env kernel_status_line" "world_of [vol_t]" vol_t
        "''0''" "''2097152''" "''8''" "''30/262144''" "''8''" "''262144''" "''262144''" "''0''"
        "[''0'', ''4'', ''hydration_threshold'', ''1'', ''hydration_batch_size'', ''1'', ''rw'']"]
    by (simp add: status_env_fields tokens_kernel_status_line world_of_fields
        dm_target_name_def volume_name_def vol_t_fields)
  have b: "monitor_volume (status_env partial_status_line) vol_t (world_of [vol_t])
     = (Inr (), (world_of [vol_t])\<lparr>trace := [DmStatus ''volume-a1-handle''], now := 0\<rparr>)"
    using monitor_finalizes_iff [of "status_env partial_status_line" "world_of [vol_t]" vol_t
        "''0''" "''2097152''" "''8''" "''30/262144''" "''8''" "''30''" "''262144''" "''0''"
        "[''0'', ''4'', ''hydration_threshold'', ''1'', ''hydration_batch_size'', ''1'', ''rw'']"]
    by (simp add: status_env_fields tokens_partial_status_line world_of_fields
        dm_target_name_def volume_name_def vol_t_fields)
  from a b show ?thesis by simp
qed

lemmas monitor_run_simps =
  monitor_volume_def [THEN fun_cong] dmsetup_status_def finalize_def [THEN fun_cong]
  complete_migration_def [THEN fun_cong]
  find_src_volume_def get_by_id_def [THEN fun_cong] hydration_complete_def
  disconnect_volume_def get_connector_def [THEN fun_cong]
  status_env_fields vol_t_fields

lemma linear_table_vol_t:
  "linear_table (status_env line) (vol_t\<lparr>migration_status := m\<rparr>)
     = ''0 2097152 linear /dev/vg/volume-a1 0''"
  by (simp add: linear_table_def str_int_def str_nat.simps digit_char_def status_env_fields
      vol_t_fields volume_name_def)

lemma kernel_line_run:
  "monitor_volume (status_env kernel_status_line) vol_t (world_of [vol_t]) =
     (Inr (),
      (world_of [vol_t])
        \<lparr>mig_log :=
           [(''a1'', Some ''target:zz'', Some ''completing''),
            (''a1'', Some ''completing'', Some ''success'')],
         trace :=
           [DmStatus ''volume-a1-handle'', DbGetById ''zz'',
            DbSave (vol_t\<lparr>migration_status := Some ''completing''\<rparr>),
            DmSuspend ''volume-a1-handle'',
            DmLoad ''volume-a1-handle'' ''0 2097152 linear /dev/vg/volume-a1 0'',
            DmResume ''volume-a1-handle'', LvDelete ''volume-a1-metadata'',
            DbSave (vol_t\<lparr>migration_status := Some ''success''\<rparr>)],
         now := 0, db := [vol_t\<lparr>migration_status := Some ''success''\<rparr>],
         db_log :=
           [(DbSave (vol_t\<lparr>migration_status := Some ''completing''\<rparr>),
             [vol_t\<lparr>migration_status := Some ''completing''\<rparr>]),
            (DbSave (vol_t\<lparr>migration_status := Some ''success''\<rparr>),
             [vol_t\<lparr>migration_status := Some ''success''\<rparr>])]\<rparr>)"
  by (simp add: run_simps monitor_run_simps tokens_kernel_status_line linear_table_vol_t)

lemma spec_line_run:
  "monitor_volume (status_env spec_status_line) vol_t (world_of [vol_t])
     = (Inl IndexError, (world_of [vol_t])\<lparr>trace := [DmStatus ''volume-a1-handle''], now := 0\<rparr>)"
  by (simp add: run_simps monitor_run_simps tokens_spec_status_line)

text \<open>
  C1 as stated fails on both of its scenarios. On the first line the specification's
  reading says "complete", but position 6 holds \<^verbatim>\<open>0\<close>, which has no second part: the
  monitor raises \<^verbatim>\<open>IndexError\<close> and finalizes nothing. On the second line, where the
  specification's reading says "hydrated < total", positions 6 and 7 hold
  \<^verbatim>\<open>262144/262144\<close> and \<^verbatim>\<open>0\<close>: the monitor finalizes and persists \<^verbatim>\<open>success\<close>.
\<close>

theorem monitor_scenarios_counterexample:
  "spec_hydration_complete (tokens spec_status_line)
   \<and> fst (monitor_volume (status_env spec_status_line) vol_t (world_of [vol_t])) = Inl IndexError
   \<and> trace (snd (monitor_volume (status_env spec_status_line) vol_t (world_of [vol_t])))
       = [DmStatus ''volume-a1-handle'']
   \<and> db (snd (monitor_volume (status_env spec_status_line) vol_t (world_of [vol_t]))) = [vol_t]
   \<and> \<not> spec_hydration_complete (tokens kernel_status_line)
   \<and> fst (monitor_volume (status_env kernel_status_line) vol_t (world_of [vol_t])) = Inr ()
   \<and> trace (snd (monitor_volume (status_env kernel_status_line) vol_t (world_of [vol_t])))
       = [DmStatus ''volume-a1-handle'', DbGetById ''zz'',
          DbSave (vol_t\<lparr>migration_status := Some ''completing''\<rparr>),
          DmSuspend ''volume-a1-handle'',
          DmLoad ''volume-a1-handle'' ''0 2097152 linear /dev/vg/volume-a1 0'',
          DmResume ''volume-a1-handle'', LvDelete ''volume-a1-metadata'',
          DbSave (vol_t\<lparr>migration_status := Some ''success''\<rparr>)]
   \<and> db (snd (monitor_volume (status_env kernel_status_line) vol_t (world_of [vol_t])))
       = [vol_t\<lparr>migration_status := Some ''success''\<rparr>]"
proof -
  have s1: "spec_hydration_complete (tokens spec_status_line)"
    by (simp add: spec_hydration_complete_def tokens_spec_status_line nth_opt_def)
  have s2: "\<not> spec_hydration_complete (tokens kernel_status_line)"
    by (simp add: spec_hydration_complete_def tokens_kernel_status_line nth_opt_def)
  from s1 s2 show ?thesis
    by (simp add: spec_line_run kernel_line_run world_of_fields)
qed

section \<open>One tick of the monitor\<close>

text \<open>
  C7 (amended). In one monitor tick an exception raised while one volume is processed ends
  the loop: the volumes before it have been processed, the exception leaves the tick, and
  the remaining volumes of the list are not processed in this tick.
\<close>

theorem monitor_loop_aborts:
  assumes "monitor_loop E xs w = (Inr (), w1)"
    and "monitor_volume E v w1 = (Inl e, w2)"
  shows "monitor_loop E (xs @ v # ys) w = (Inl e, w2)"
  using assms
proof (induction xs arbitrary: w)
  case Nil
  then show ?case by simp
next
  case (Cons x xs)
  obtain r w' where x: "monitor_volume E x w = (r, w')"
    by (cases "monitor_volume E x w")
  show ?case
  proof (cases r)
    case (Inl e')
    with x Cons.prems(1) show ?thesis by simp
  next
    case (Inr u)
    with x Cons.prems(1) have "monitor_loop E xs w' = (Inr (), w1)" by simp
    from Cons.IH [OF this Cons.prems(2)] x Inr show ?thesis by simp
  qed
qed

lemma suspend_fails_env_fields:
  "raises suspend_fails_env tr e =
     (if e = DmSuspend ''volume-a1-handle'' then Some (External ''dmsetup'') else None)"
  "elapse suspend_fails_env tr e = 0"
  "status_line suspend_fails_env tr n = kernel_status_line"
  "owned_by suspend_fails_env h v = (host v = Some h)"
  "conf_host suspend_fails_env = ''hostB''"
  "capabilities suspend_fails_env = [(''volume_backend_name'', ''lvm'')]"
  by (simp_all add: suspend_fails_env_def quiet_env_def)

lemma vol_u_fields:
  "vol_id vol_u = ''b2''" "name_id vol_u = ''b2''" "host vol_u = Some ''hostB@lvm''"
  "status vol_u = ''in-use''" "migration_status vol_u = Some ''target:zz''" "vol_size vol_u = 1"
  by (simp_all add: vol_u_def vol_t_def vol_a_def)

lemma suspend_fails_run:
  "monitor_volume suspend_fails_env vol_t (world_of [vol_t, vol_u]) =
     (Inl (External ''dmsetup''),
      (world_of [vol_t, vol_u])
        \<lparr>mig_log := [(''a1'', Some ''target:zz'', Some ''completing'')],
         trace :=
           [DmStatus ''volume-a1-handle'', DbGetById ''zz'',
            DbSave (vol_t\<lparr>migration_status := Some ''completing''\<rparr>),
            DmSuspend ''volume-a1-handle''],
         now := 0,
         db := [vol_t\<lparr>migration_status := Some ''completing''\<rparr>, vol_u],
         db_log :=
           [(DbSave (vol_t\<lparr>migration_status := Some ''completing''\<rparr>),
             [vol_t\<lparr>migration_status := Some ''completing''\<rparr>, vol_u])]\<rparr>)"
  by (simp add: run_simps monitor_run_simps suspend_fails_env_fields vol_u_fields
      tokens_kernel_status_line)

theorem monitor_loop_aborts_witness:
  "monitor_loop suspend_fails_env [] (world_of [vol_t, vol_u]) = (Inr (), world_of [vol_t, vol_u])
   \<and> fst (monitor_volume suspend_fails_env vol_t (world_of [vol_t, vol_u]))
       = Inl (External ''dmsetup'')
   \<and> fst (monitor_loop suspend_fails_env ([] @ vol_t # [vol_u]) (world_of [vol_t, vol_u]))
       = Inl (External ''dmsetup'')
   \<and> db (snd (monitor_loop suspend_fails_env ([] @ vol_t # [vol_u]) (world_of [vol_t, vol_u])))
       = [vol_t\<lparr>migration_status := Some ''completing''\<rparr>, vol_u]"
  using monitor_loop_aborts [of suspend_fails_env "[]" "world_of [vol_t, vol_u]"
      "world_of [vol_t, vol_u]" vol_t "External ''dmsetup''" _ "[vol_u]", OF _ suspend_fails_run]
  by (simp add: suspend_fails_run)

text \<open>
  C7 as stated fails: two volumes on this host are fully hydrated; \<^verbatim>\<open>dmsetup suspend\<close>
  fails for the first. The tick ends with that exception, and the second volume is never
  examined (no status query for its overlay; its record is untouched).
\<close>

theorem monitor_tick_counterexample:
  "fst (migration_monitor suspend_fails_env (world_of [vol_t, vol_u])) = Inl (External ''dmsetup'')
   \<and> trace (snd (migration_monitor suspend_fails_env (world_of [vol_t, vol_u])))
       = [DbGetAllByHost ''hostB@lvm'', DmStatus ''volume-a1-handle'', DbGetById ''zz'',
          DbSave (vol_t\<lparr>migration_status := Some ''completing''\<rparr>),
          DmSuspend ''volume-a1-handle'']
   \<and> db (snd (migration_monitor suspend_fails_env (world_of [vol_t, vol_u])))
       = [vol_t\<lparr>migration_status := Some ''completing''\<rparr>, vol_u]
   \<and> is_target (migration_status vol_u)
   \<and> fst (monitor_volume suspend_fails_env vol_u (world_of [vol_t, vol_u])) = Inr ()
   \<and> db (snd (monitor_volume suspend_fails_env vol_u (world_of [vol_t, vol_u])))
       = [vol_t, vol_u\<lparr>migration_status := Some ''success''\<rparr>]"
  by (simp add: migration_monitor_def [THEN fun_cong] get_all_by_host_def [THEN fun_cong]
      run_simps monitor_run_simps suspend_fails_env_fields vol_u_fields is_target_def
      tokens_kernel_status_line)

section \<open>Calls in order\<close>

lemma followsI:
  "(\<And>w. \<exists>xs. trace (snd (m w)) = trace w @ xs \<and> matches_prefix xs ps) \<Longrightarrow> follows m ps"
  by (simp add: follows_def)

lemma followsD:
  "follows m ps \<Longrightarrow> \<exists>xs. trace (snd (m w)) = trace w @ xs \<and> matches_prefix xs ps"
  by (simp add: follows_def)

lemma follows_ret: "follows (ret x) ps"
  by (simp add: follows_def ret_def)

lemma follows_call_last: "follows (call E e) (Must e # ps)"
  by (simp add: follows_def call_def Let_def split: option.split)

lemma follows_save_last: "follows (save E v) (Must (DbSave v) # ps)"
  by (simp add: follows_def save_def then_do_def call_def write_db_def Let_def
      split: option.split)

lemma follows_step:
  assumes head: "\<And>w. \<exists>r w'. m w = (r, w') \<and> trace w' = trace w @ [e] \<and> (\<forall>x. r = Inr x \<longrightarrow> R x)"
    and rest: "\<And>x. R x \<Longrightarrow> follows (f x) ps"
  shows "follows (then_do m f) (Must e # ps)"
proof (rule followsI)
  fix w :: world
  obtain r w' where m: "m w = (r, w')" and tr: "trace w' = trace w @ [e]"
    and R: "\<forall>x. r = Inr x \<longrightarrow> R x"
    using head by blast
  show "\<exists>zs. trace (snd (then_do m f w)) = trace w @ zs \<and> matches_prefix zs (Must e # ps)"
  proof (cases r)
    case (Inl err)
    with m tr have "trace (snd (then_do m f w)) = trace w @ [e]"
      by (simp add: then_do_def)
    then show ?thesis by (intro exI [of _ "[e]"]) simp
  next
    case (Inr x)
    with R have "R x" by simp
    then obtain xs where xs: "trace (snd (f x w')) = trace w' @ xs" "matches_prefix xs ps"
      using followsD [OF rest] by blast
    with m tr Inr have "trace (snd (then_do m f w)) = trace w @ (e # xs)"
      by (simp add: then_do_def)
    with xs(2) show ?thesis by (intro exI [of _ "e # xs"]) simp
  qed
qed

lemma follows_silent:
  assumes head: "\<And>w. \<exists>x w'. m w = (Inr x, w') \<and> trace w' = trace w \<and> R x"
    and rest: "\<And>x. R x \<Longrightarrow> follows (f x) ps"
  shows "follows (then_do m f) ps"
proof (rule followsI)
  fix w :: world
  obtain x w' where m: "m w = (Inr x, w')" and tr: "trace w' = trace w" and R: "R x"
    using head by blast
  obtain xs where xs: "trace (snd (f x w')) = trace w' @ xs" "matches_prefix xs ps"
    using followsD [OF rest [OF R]] by blast
  with m tr have "trace (snd (then_do m f w)) = trace w @ xs"
    by (simp add: then_do_def)
  with xs(2) show "\<exists>zs. trace (snd (then_do m f w)) = trace w @ zs \<and> matches_prefix zs ps"
    by blast
qed

lemma follows_call:
  "follows (f ()) ps \<Longrightarrow> follows (then_do (call E e) f) (Must e # ps)"
  by (rule follows_step [where R = "\<lambda>x. True"])
     (auto simp: call_def Let_def split: option.split)

lemma follows_save:
  "follows (f ()) ps \<Longrightarrow> follows (then_do (save E v) f) (Must (DbSave v) # ps)"
  by (rule follows_step [where R = "\<lambda>x. True"])
     (auto simp: save_def then_do_def call_def write_db_def Let_def split: option.split)

lemma follows_set_migration_status:
  "follows (f (v\<lparr>migration_status := x\<rparr>)) ps \<Longrightarrow>
   follows (then_do (set_migration_status v x) f) ps"
  by (rule follows_silent [where R = "\<lambda>y. y = v\<lparr>migration_status := x\<rparr>"])
     (auto simp: set_migration_status_def)

lemma follows_ret_then: "follows (f x) ps \<Longrightarrow> follows (then_do (ret x) f) ps"
  by (rule follows_silent [where R = "\<lambda>y. y = x"]) (auto simp: ret_def)

lemma then_do_assoc: "then_do (then_do m f) g = then_do m (\<lambda>x. then_do (f x) g)"
  by (rule ext) (simp add: then_do_def split: prod.split sum.split)

lemma follows_disconnect_volume:
  assumes rest: "follows (f ()) ps"
  shows "follows (then_do (disconnect_volume E s) f)
           (Must (GetConnector (vol_id s)) # May (DisconnectVolume (vol_id s))
            # Must (RpcRemoveExport (vol_id s)) # ps)"
proof (rule followsI)
  fix w :: world
  obtain r w' where d: "disconnect_volume E s w = (r, w')"
    by (cases "disconnect_volume E s w")
  have tr: "trace w' = trace w @ [GetConnector (vol_id s), RpcRemoveExport (vol_id s)]
      \<or> trace w' = trace w @ [GetConnector (vol_id s), DisconnectVolume (vol_id s),
                               RpcRemoveExport (vol_id s)]"
    using d
    by (auto simp: disconnect_volume_def get_connector_def then_do_def call_def ret_def Let_def
        split: option.splits)
  obtain xs where xs: "trace (snd (f () w')) = trace w' @ xs" "matches_prefix xs ps"
    using followsD [OF rest] by blast
  show "\<exists>zs. trace (snd (then_do (disconnect_volume E s) f w)) = trace w @ zs
      \<and> matches_prefix zs (Must (GetConnector (vol_id s)) # May (DisconnectVolume (vol_id s))
            # Must (RpcRemoveExport (vol_id s)) # ps)"
  proof (cases r)
    case (Inl err)
    with d have "trace (snd (then_do (disconnect_volume E s) f w)) = trace w'"
      by (simp add: then_do_def)
    with tr show ?thesis by auto
  next
    case (Inr u)
    with d xs have "trace (snd (then_do (disconnect_volume E s) f w)) = trace w' @ xs"
      by (simp add: then_do_def)
    with tr xs(2) show ?thesis by (cases xs) auto
  qed
qed

lemma names_keep_migration_status:
  "dm_target_name (v\<lparr>migration_status := x\<rparr>) = dm_target_name v"
  "metadata_dev_name (v\<lparr>migration_status := x\<rparr>) = metadata_dev_name v"
  "dm_target_name (v\<lparr>status := y\<rparr>) = dm_target_name v"
  "metadata_dev_name (v\<lparr>status := y\<rparr>) = metadata_dev_name v"
  by (simp_all add: dm_target_name_def metadata_dev_name_def volume_name_def)

lemma complete_migration_follows:
  "follows (complete_migration E volume src_volume) (tl (finalize_pattern E volume src_volume))"
proof (cases src_volume)
  case None
  show ?thesis
    unfolding complete_migration_def finalize_pattern_def None
    by ((rule follows_set_migration_status follows_save follows_call follows_ret_then
          follows_save_last
        | simp add: names_keep_migration_status)+)
next
  case (Some s)
  show ?thesis
    unfolding complete_migration_def finalize_pattern_def Some
    by ((rule follows_set_migration_status follows_save follows_call follows_disconnect_volume
          follows_save_last follows_call_last
        | simp add: names_keep_migration_status then_do_assoc)+)
qed

lemma find_src_volume_calls:
  "\<exists>pre. trace (snd (find_src_volume E v w)) = trace w @ pre
     \<and> (pre = [] \<or> pre = [DbGetById (src_volume_id v)])
     \<and> (\<forall>s. fst (find_src_volume E v w) = Inr s \<longrightarrow> pre = [DbGetById (src_volume_id v)])"
  by (auto simp: find_src_volume_def get_by_id_def then_do_def call_def Let_def src_volume_id_def
      split: option.splits sum.splits error.splits prod.splits)

text \<open>
  C6 (amended). The calls of a finalization are made in the order of \<open>finalize_pattern\<close>:
  the look-up of the source, the save of \<^verbatim>\<open>completing\<close>, then suspend, load of the linear
  table onto the local path, resume of the overlay, one right after the other, then the
  deletion of the metadata device, then, when the look-up returned a source record, the
  attempt to disconnect the source, the removal of its export and the request to delete
  it, and last the save of \<^verbatim>\<open>success\<close>. The attempt to disconnect is the look-up of the
  connector of the source, followed by the connector's \<^verbatim>\<open>disconnect_volume\<close> unless that
  look-up raised: the \<^verbatim>\<open>try\<close> of \<^verbatim>\<open>_disconnect_volume\<close> drops what either of them
  raises, so the disconnect itself is an optional step of the pattern, and the export is
  removed, the deletion requested and \<^verbatim>\<open>success\<close> saved also when it was never called.
  A run that fails stops somewhere in this order. When the look-up of the source returned
  no record, \<^verbatim>\<open>success\<close> is saved right after the deletion of the metadata device.
\<close>

theorem finalize_order:
  "matches_prefix (new_calls w (finalize E volume w))
     (finalize_pattern E volume (found (find_src_volume E volume w)))"
proof -
  obtain r w0 where fs: "find_src_volume E volume w = (r, w0)"
    by (cases "find_src_volume E volume w")
  obtain pre where pre: "trace w0 = trace w @ pre"
    "pre = [] \<or> pre = [DbGetById (src_volume_id volume)]"
    "\<forall>s. r = Inr s \<longrightarrow> pre = [DbGetById (src_volume_id volume)]"
    using find_src_volume_calls [of E volume w] fs by auto
  show ?thesis
  proof (cases r)
    case (Inl e)
    with fs pre have "new_calls w (finalize E volume w) = pre"
      by (simp add: new_calls_def finalize_def then_do_def)
    with pre(2) show ?thesis by (auto simp: finalize_pattern_def)
  next
    case (Inr s)
    obtain xs where xs: "trace (snd (complete_migration E volume s w0)) = trace w0 @ xs"
      "matches_prefix xs (tl (finalize_pattern E volume s))"
      using followsD [OF complete_migration_follows] by blast
    from fs Inr pre xs have "new_calls w (finalize E volume w)
        = DbGetById (src_volume_id volume) # xs"
      by (simp add: new_calls_def finalize_def then_do_def)
    moreover have "found (find_src_volume E volume w) = s"
      using fs Inr by (simp add: found_def)
    ultimately show ?thesis using xs(2) by (simp add: finalize_pattern_def)
  qed
qed

lemma vol_z_fields:
  "vol_id vol_z = ''zz''" "name_id vol_z = ''zz''" "host vol_z = Some ''hostA@lvm''"
  "status vol_z = ''in-use''" "migration_status vol_z = None"
  by (simp_all add: vol_z_def vol_a_def)

lemma linear_table_quiet_vol_t:
  "linear_table quiet_env (vol_t\<lparr>migration_status := m\<rparr>)
     = ''0 2097152 linear /dev/vg/volume-a1 0''"
  by (simp add: linear_table_def str_int_def str_nat.simps digit_char_def quiet_env_fields
      vol_t_fields volume_name_def)

lemma finalize_found_run:
  "new_calls (world_of [vol_t, vol_z]) (finalize quiet_env vol_t (world_of [vol_t, vol_z]))
     = [DbGetById ''zz'',
        DbSave (vol_t\<lparr>migration_status := Some ''completing''\<rparr>),
        DmSuspend ''volume-a1-handle'',
        DmLoad ''volume-a1-handle'' ''0 2097152 linear /dev/vg/volume-a1 0'',
        DmResume ''volume-a1-handle'', LvDelete ''volume-a1-metadata'',
        GetConnector ''zz'', DisconnectVolume ''zz'', RpcRemoveExport ''zz'',
        RpcDeleteVolume ''zz'',
        DbSave (vol_t\<lparr>migration_status := Some ''success''\<rparr>)]"
  by (simp add: new_calls_def run_simps monitor_run_simps quiet_env_fields vol_t_fields
      vol_z_fields linear_table_quiet_vol_t)

lemma find_src_found:
  "found (find_src_volume quiet_env vol_t (world_of [vol_t, vol_z])) = Some vol_z"
  by (simp add: found_def run_simps monitor_run_simps quiet_env_fields vol_t_fields vol_z_fields)

theorem finalize_order_witness:
  "matches_prefix
     [DbGetById ''zz'',
      DbSave (vol_t\<lparr>migration_status := Some ''completing''\<rparr>),
      DmSuspend ''volume-a1-handle'',
      DmLoad ''volume-a1-handle'' ''0 2097152 linear /dev/vg/volume-a1 0'',
      DmResume ''volume-a1-handle'', LvDelete ''volume-a1-metadata'',
      GetConnector ''zz'', DisconnectVolume ''zz'', RpcRemoveExport ''zz'',
      RpcDeleteVolume ''zz'',
      DbSave (vol_t\<lparr>migration_status := Some ''success''\<rparr>)]
     (finalize_pattern quiet_env vol_t (Some vol_z))
   \<and> new_calls (world_of [vol_t, vol_z]) (finalize quiet_env vol_t (world_of [vol_t, vol_z]))
     = [DbGetById ''zz'',
        DbSave (vol_t\<lparr>migration_status := Some ''completing''\<rparr>),
        DmSuspend ''volume-a1-handle'',
        DmLoad ''volume-a1-handle'' ''0 2097152 linear /dev/vg/volume-a1 0'',
        DmResume ''volume-a1-handle'', LvDelete ''volume-a1-metadata'',
        GetConnector ''zz'', DisconnectVolume ''zz'', RpcRemoveExport ''zz'',
        RpcDeleteVolume ''zz'',
        DbSave (vol_t\<lparr>migration_status := Some ''success''\<rparr>)]"
  using finalize_order [of "world_of [vol_t, vol_z]" quiet_env vol_t]
  by (simp only: finalize_found_run find_src_found simp_thms)

text \<open>
  The disconnect is left out when the look-up of the connector raises: the export is
  removed, the deletion requested and \<^verbatim>\<open>success\<close> saved all the same.
\<close>

lemma connector_fails_env_fields:
  "raises connector_fails_env tr e
     = (if e = GetConnector ''zz'' then Some (External ''connector'') else None)"
  "local_path connector_fails_env = local_path quiet_env"
  "conf_host connector_fails_env = conf_host quiet_env"
  "extract_host connector_fails_env = extract_host quiet_env"
  "status_line connector_fails_env = status_line quiet_env"
  by (simp_all add: connector_fails_env_def)

lemma linear_table_connector_fails_vol_t:
  "linear_table connector_fails_env (vol_t\<lparr>migration_status := m\<rparr>)
     = ''0 2097152 linear /dev/vg/volume-a1 0''"
  by (simp add: linear_table_def str_int_def str_nat.simps digit_char_def
      connector_fails_env_fields quiet_env_fields vol_t_fields volume_name_def)

lemma finalize_connector_fails_run:
  "fst (finalize connector_fails_env vol_t (world_of [vol_t, vol_z])) = Inr ()
   \<and> new_calls (world_of [vol_t, vol_z])
       (finalize connector_fails_env vol_t (world_of [vol_t, vol_z]))
     = [DbGetById ''zz'',
        DbSave (vol_t\<lparr>migration_status := Some ''completing''\<rparr>),
        DmSuspend ''volume-a1-handle'',
        DmLoad ''volume-a1-handle'' ''0 2097152 linear /dev/vg/volume-a1 0'',
        DmResume ''volume-a1-handle'', LvDelete ''volume-a1-metadata'',
        GetConnector ''zz'', RpcRemoveExport ''zz'', RpcDeleteVolume ''zz'',
        DbSave (vol_t\<lparr>migration_status := Some ''success''\<rparr>)]"
  by (simp add: new_calls_def run_simps monitor_run_simps connector_fails_env_fields
      vol_t_fields vol_z_fields linear_table_connector_fails_vol_t)

text \<open>
  C6 as stated fails in its last part: when the record that the pointer names is gone, the
  monitor persists \<^verbatim>\<open>success\<close> although no disconnect and no deletion of a source was
  ever requested.
\<close>

theorem finalize_without_source_counterexample:
  "fst (finalize quiet_env vol_t (world_of [vol_t])) = Inr ()
   \<and> new_calls (world_of [vol_t]) (finalize quiet_env vol_t (world_of [vol_t]))
     = [DbGetById ''zz'',
        DbSave (vol_t\<lparr>migration_status := Some ''completing''\<rparr>),
        DmSuspend ''volume-a1-handle'',
        DmLoad ''volume-a1-handle'' ''0 2097152 linear /dev/vg/volume-a1 0'',
        DmResume ''volume-a1-handle'', LvDelete ''volume-a1-metadata'',
        DbSave (vol_t\<lparr>migration_status := Some ''success''\<rparr>)]
   \<and> db (snd (finalize quiet_env vol_t (world_of [vol_t])))
     = [vol_t\<lparr>migration_status := Some ''success''\<rparr>]"
  by (simp add: new_calls_def run_simps monitor_run_simps quiet_env_fields vol_t_fields
      linear_table_quiet_vol_t)

section \<open>Failure while creating a migration volume\<close>

text \<open>
  C8 (amended). When the \<^verbatim>\<open>try\<close> block of \<^verbatim>\<open>create_volume\<close> fails with \<open>e\<close> after the
  handle of the source has been obtained (the metadata device, the overlay or the
  hydration message failed), the handler sets status and \<^verbatim>\<open>migration_status\<close> to
  \<^verbatim>\<open>error\<close> and then attempts, in this order and whether or not the step it undoes was
  reached: the save of the record, the removal of the overlay, the disconnect of the
  source, the deletion of the metadata device, the deletion of the volume. When all of
  them return, \<open>e\<close> is raised again; the first of them that raises ends the clean-up, and
  what it raised takes the place of \<open>e\<close>.
\<close>

theorem create_volume_failure:
  assumes base: "raises E (trace w) (BaseCreateVolume (vol_id volume)) = None"
    and w0: "w0 = w\<lparr>trace := trace w @ [BaseCreateVolume (vol_id volume)],
                      now := now w + elapse E (trace w) (BaseCreateVolume (vol_id volume))\<rparr>"
    and body: "try_block E volume w0 = (Inl e, loc, w1)"
    and c: "l_connector loc = Some c"
    and h: "l_handle loc = Some path"
  shows "trace (snd (create_volume E volume w))
           = trace w1 @ fst (attempt E (trace w1) (cleanup_calls volume c))
    \<and> fst (create_volume E volume w)
           = Inl (case snd (attempt E (trace w1) (cleanup_calls volume c)) of
                    None \<Rightarrow> e
                  | Some e' \<Rightarrow> e')
    \<and> mig_log (snd (create_volume E volume w))
           = mig_log w1 @ [(vol_id volume, migration_status volume, Some ''error'')]
    \<and> (raises E (trace w1)
          (DbSave (volume\<lparr>status := ''error'', migration_status := Some ''error''\<rparr>)) = None
        \<longrightarrow> db (snd (create_volume E volume w))
           = db_put (db w1) (volume\<lparr>status := ''error'', migration_status := Some ''error''\<rparr>))"
proof -
  have cv: "create_volume E volume w = create_failed E volume loc e w1"
    using base w0 body by (simp add: create_volume_def call_def)
  show ?thesis
    unfolding cv
    by (simp add: create_failed_def c h then_do_def ret_def raise_def call_def save_def
        write_db_def set_migration_status_def cleanup_calls_def names_keep_migration_status
        Let_def split: option.split)
qed

lemma vol_m_fields:
  "vol_id vol_m = ''n1''" "name_id vol_m = ''n1''" "status vol_m = ''creating''"
  "migration_status vol_m = Some ''migrating''" "vol_size vol_m = 1"
  by (simp_all add: vol_m_def vol_a_def)

lemma vol_o_fields:
  "vol_id vol_o = ''a1''" "name_id vol_o = ''a1''" "migration_status vol_o = Some ''target:n1''"
  by (simp_all add: vol_o_def vol_a_def)

lemma overlay_fails_env_fields:
  "raises overlay_fails_env tr e =
     (case e of DmCreate n t \<Rightarrow> Some (External ''dmsetup create'') | _ \<Rightarrow> None)"
  "elapse overlay_fails_env tr e = 0"
  "handle_path overlay_fails_env c = ''/dev/sdb''"
  by (simp_all add: overlay_fails_env_def quiet_env_def)

lemma cleanup_fails_env_fields:
  "raises cleanup_fails_env tr e =
     (case e of DmCreate n t \<Rightarrow> Some (External ''dmsetup create'')
      | LvDelete n \<Rightarrow> Some (External ''lvremove'') | _ \<Rightarrow> None)"
  "elapse cleanup_fails_env tr e = 0"
  "handle_path cleanup_fails_env c = ''/dev/sdb''"
  by (simp_all add: cleanup_fails_env_def quiet_env_def)

lemma connect_fails_env_fields:
  "raises connect_fails_env tr e =
     (case e of ConnectVolume c \<Rightarrow> Some (External ''iscsi login'') | _ \<Rightarrow> None)"
  "elapse connect_fails_env tr e = 0"
  by (simp_all add: connect_fails_env_def quiet_env_def)

lemmas create_run_simps =
  create_volume_def try_block_def create_overlay_def get_all_limit1_def [THEN fun_cong]
  get_connector_def [THEN fun_cong] create_failed_def [THEN fun_cong] truthy_def no_locals_def
  vol_m_fields vol_o_fields Let_def

lemma overlay_fails_try_block:
  "try_block overlay_fails_env vol_m
     ((world_of [vol_o])\<lparr>trace := [BaseCreateVolume ''n1''], now := 0\<rparr>)
   = (Inl (External ''dmsetup create''),
      \<lparr>l_connector = Some ''a1'', l_handle = Some ''/dev/sdb''\<rparr>,
      (world_of [vol_o])
        \<lparr>trace := [BaseCreateVolume ''n1'', DbGetAll ''target:n1'', GetConnector ''a1'',
                   ConnectVolume ''a1'', LvCreate ''volume-n1-metadata'' ''1g'',
                   DmCreate ''volume-n1-handle'' (clone_table overlay_fails_env vol_m ''/dev/sdb'')],
         now := 0\<rparr>)"
  by (simp add: run_simps create_run_simps overlay_fails_env_fields)

theorem create_volume_failure_witness:
  "fst (create_volume overlay_fails_env vol_m (world_of [vol_o]))
     = Inl (External ''dmsetup create'')
   \<and> trace (snd (create_volume overlay_fails_env vol_m (world_of [vol_o])))
     = [BaseCreateVolume ''n1'', DbGetAll ''target:n1'', GetConnector ''a1'',
        ConnectVolume ''a1'', LvCreate ''volume-n1-metadata'' ''1g'',
        DmCreate ''volume-n1-handle'' (clone_table overlay_fails_env vol_m ''/dev/sdb''),
        DbSave (vol_m\<lparr>status := ''error'', migration_status := Some ''error''\<rparr>),
        DmRemove ''volume-n1-handle'', DisconnectVolume ''a1'',
        LvDelete ''volume-n1-metadata'', BaseDeleteVolume ''n1'']
   \<and> mig_log (snd (create_volume overlay_fails_env vol_m (world_of [vol_o])))
     = [(''n1'', Some ''migrating'', Some ''error'')]"
  using create_volume_failure [of overlay_fails_env "world_of [vol_o]" vol_m
      "(world_of [vol_o])\<lparr>trace := [BaseCreateVolume ''n1''], now := 0\<rparr>"
      "External ''dmsetup create''"
      "\<lparr>l_connector = Some ''a1'', l_handle = Some ''/dev/sdb''\<rparr>" _ "''a1''" "''/dev/sdb''",
      OF _ _ overlay_fails_try_block]
  by (simp add: overlay_fails_env_fields world_of_fields vol_m_fields cleanup_calls_def
      dm_target_name_def metadata_dev_name_def volume_name_def)

text \<open>
  C8 as stated fails: the overlay cannot be created (the original error), and in the
  clean-up the deletion of the metadata device fails. What the caller gets is the error
  of the clean-up, not the original one, and the volume is never deleted.
\<close>

theorem create_volume_cleanup_counterexample:
  "fst (create_volume cleanup_fails_env vol_m (world_of [vol_o])) = Inl (External ''lvremove'')
   \<and> trace (snd (create_volume cleanup_fails_env vol_m (world_of [vol_o])))
     = [BaseCreateVolume ''n1'', DbGetAll ''target:n1'', GetConnector ''a1'',
        ConnectVolume ''a1'', LvCreate ''volume-n1-metadata'' ''1g'',
        DmCreate ''volume-n1-handle'' (clone_table cleanup_fails_env vol_m ''/dev/sdb''),
        DbSave (vol_m\<lparr>status := ''error'', migration_status := Some ''error''\<rparr>),
        DmRemove ''volume-n1-handle'', DisconnectVolume ''a1'',
        LvDelete ''volume-n1-metadata'']"
  by (simp add: run_simps create_run_simps cleanup_fails_env_fields)

text \<open>
  The handler also reads \<^verbatim>\<open>connector\<close> and \<^verbatim>\<open>src_volume_handle\<close>, which are unbound
  when the failure came earlier: the connection to the source fails, and the caller gets
  \<^verbatim>\<open>UnboundLocalError\<close>; metadata device and volume are not cleaned up.
\<close>

lemma create_volume_unbound_handle:
  "fst (create_volume connect_fails_env vol_m (world_of [vol_o])) = Inl UnboundLocalError
   \<and> trace (snd (create_volume connect_fails_env vol_m (world_of [vol_o])))
     = [BaseCreateVolume ''n1'', DbGetAll ''target:n1'', GetConnector ''a1'',
        ConnectVolume ''a1'',
        DbSave (vol_m\<lparr>status := ''error'', migration_status := Some ''error''\<rparr>),
        DmRemove ''volume-n1-handle'']"
  by (simp add: run_simps create_run_simps connect_fails_env_fields)

section \<open>Changes of the migration status\<close>

lemma appends_frame: "(\<And>w. g (snd (m w)) = g w) \<Longrightarrow> appends g P m"
  by (simp add: appends_def)

lemma appends_weaken: "appends g P m \<Longrightarrow> (\<And>x. P x \<Longrightarrow> Q x) \<Longrightarrow> appends g Q m"
  unfolding appends_def by (metis (mono_tags, lifting) list.pred_mono_strong)

lemma mig_frame:
  "mig_log (snd (call E e w)) = mig_log w"
  "mig_log (snd (save E v w)) = mig_log w"
  "mig_log (snd (create E v w)) = mig_log w"
  "mig_log (snd (destroy E v w)) = mig_log w"
  "mig_log (snd (refresh E v w)) = mig_log w"
  "mig_log (snd (get_by_id E i w)) = mig_log w"
  "mig_log (snd (get_all_by_host E h w)) = mig_log w"
  "mig_log (snd (get_all_limit1 E m w)) = mig_log w"
  "mig_log (snd (get_connector E v w)) = mig_log w"
  "mig_log (snd (dmsetup_status E n w)) = mig_log w"
  "mig_log (snd (item d k w)) = mig_log w"
  "mig_log (snd (lift r w)) = mig_log w"
  "mig_log (snd (ret x w)) = mig_log w"
  "mig_log (snd (raise err w)) = mig_log w"
  by (simp_all add: call_def save_def create_def destroy_def refresh_def get_by_id_def
      get_all_by_host_def get_all_limit1_def get_connector_def dmsetup_status_def item_def
      lift_def ret_def raise_def then_do_def write_db_def Let_def
      split: option.split prod.split sum.split)

lemma mig_frame_find_src_volume: "mig_log (snd (find_src_volume E v w)) = mig_log w"
  by (simp add: find_src_volume_def get_by_id_def then_do_def call_def Let_def
      split: option.split prod.split sum.split error.split)

lemma mig_frame_disconnect_volume: "mig_log (snd (disconnect_volume E v w)) = mig_log w"
  by (simp add: disconnect_volume_def get_connector_def then_do_def call_def ret_def Let_def
      split: option.split prod.split sum.split)

lemma mig_frame_switch_volumes: "mig_log (snd (switch_volumes E v other w)) = mig_log w"
  by (simp add: switch_volumes_def save_def then_do_def call_def write_db_def ret_def raise_def
      Let_def split: option.split prod.split sum.split)

lemma mig_frame_then_do:
  "(\<And>w. mig_log (snd (m w)) = mig_log w) \<Longrightarrow> (\<And>x w. mig_log (snd (f x w)) = mig_log w) \<Longrightarrow>
   mig_log (snd (then_do m f w)) = mig_log w"
  by (simp add: then_do_def split: prod.split sum.split) (metis snd_conv)

lemmas mig_frames = mig_frame mig_frame_find_src_volume mig_frame_disconnect_volume
  mig_frame_switch_volumes

lemma appends_mig_step:
  "(\<And>w. mig_log (snd (m w)) = mig_log w) \<Longrightarrow> (\<And>x. appends mig_log P (f x)) \<Longrightarrow>
   appends mig_log P (then_do m f)"
  by (rule appends_then_do) (rule appends_frame)

lemma appends_mig_set:
  assumes "P (vol_id v, migration_status v, x)"
    and "appends mig_log P (f (v\<lparr>migration_status := x\<rparr>))"
  shows "appends mig_log P (then_do (set_migration_status v x) f)"
proof (rule appendsI)
  fix w :: world
  let ?w = "w\<lparr>mig_log := mig_log w @ [(vol_id v, migration_status v, x)]\<rparr>"
  obtain xs where xs: "mig_log (snd (f (v\<lparr>migration_status := x\<rparr>) ?w)) = mig_log ?w @ xs"
    "list_all P xs"
    using appendsD [OF assms(2)] by blast
  then have "mig_log (snd (then_do (set_migration_status v x) f w))
      = mig_log w @ ((vol_id v, migration_status v, x) # xs)"
    by (simp add: then_do_def set_migration_status_def)
  moreover have "list_all P ((vol_id v, migration_status v, x) # xs)"
    using assms(1) xs(2) by simp
  ultimately show "\<exists>zs. mig_log (snd (then_do (set_migration_status v x) f w)) = mig_log w @ zs
      \<and> list_all P zs" by blast
qed

lemma appends_mig_set_last:
  "P (vol_id v, migration_status v, x) \<Longrightarrow> appends mig_log P (set_migration_status v x)"
  by (simp add: appends_def set_migration_status_def)

lemma is_target_pointer: "is_target (Some (''target:'' @ i))"
  by (simp add: is_target_def)

subsection \<open>The monitor\<close>

lemma appends_mig_complete_migration:
  "is_target (migration_status volume) \<Longrightarrow>
   appends mig_log monitor_edge (complete_migration E volume src_volume)"
  unfolding complete_migration_def
  by (cases src_volume)
     ((rule appends_mig_set appends_mig_step appends_frame mig_frame_then_do
       | simp add: monitor_edge_def mig_frames)+)

lemma appends_mig_monitor_volume:
  assumes "is_target (migration_status volume)"
  shows "appends mig_log monitor_edge (monitor_volume E volume)"
  unfolding monitor_volume_def finalize_def
  by (rule appends_mig_step, simp add: mig_frames)
     (auto simp: appends_raise appends_ret mig_frames
       intro!: appends_mig_step appends_mig_complete_migration [OF assms]
       split: option.split sum.split)

lemma appends_mig_monitor_loop:
  "list_all (\<lambda>v. is_target (migration_status v)) vs \<Longrightarrow>
   \<exists>xs. mig_log (snd (monitor_loop E vs w)) = mig_log w @ xs \<and> list_all monitor_edge xs"
proof (induction vs arbitrary: w)
  case Nil
  then show ?case by simp
next
  case (Cons v vs)
  then have v: "is_target (migration_status v)"
    and vs: "list_all (\<lambda>v. is_target (migration_status v)) vs" by simp_all
  obtain r w' where m: "monitor_volume E v w = (r, w')"
    by (cases "monitor_volume E v w")
  obtain xs where xs: "mig_log w' = mig_log w @ xs" "list_all monitor_edge xs"
    using appendsD [OF appends_mig_monitor_volume [OF v], of E w] m by auto
  show ?case
  proof (cases r)
    case (Inl e)
    with m xs show ?thesis by auto
  next
    case (Inr u)
    obtain ys where ys: "mig_log (snd (monitor_loop E vs w')) = mig_log w' @ ys"
      "list_all monitor_edge ys"
      using Cons.IH [OF vs] by blast
    with m Inr xs have "mig_log (snd (monitor_loop E (v # vs) w)) = mig_log w @ (xs @ ys)"
      "list_all monitor_edge (xs @ ys)" by simp_all
    then show ?thesis by blast
  qed
qed

lemma appends_mig_migration_monitor: "appends mig_log monitor_edge (migration_monitor E)"
proof (cases "map_of (capabilities E) ''volume_backend_name''")
  case None
  then show ?thesis by (simp add: migration_monitor_def appends_ret)
next
  case (Some backend)
  have "appends mig_log monitor_edge
      (\<lambda>w. monitor_loop E (filter (\<lambda>v. is_target (migration_status v)) vs) w)" for vs
    by (rule appendsI) (rule appends_mig_monitor_loop, simp add: list_all_iff)
  then show ?thesis
    by (simp add: migration_monitor_def Some) (rule appends_mig_step, simp_all add: mig_frames)
qed

subsection \<open>Attaching\<close>

lemma mig_log_wait_failed:
  "\<exists>xs. mig_log (snd (wait_failed E nv v w)) = mig_log w @ xs
     \<and> (xs = [] \<or> xs = [(vol_id v, migration_status v, Some ''error'')])"
  by (auto simp: wait_failed_def then_do_def call_def destroy_def save_def write_db_def
      set_migration_status_def raise_def Let_def
      split: option.splits sum.splits prod.splits error.splits)

lemma appends_mig_wait_available:
  assumes "P (vol_id v, migration_status v, Some ''error'')"
  shows "appends mig_log P (wait_available E d t nv v)"
proof (rule appendsI)
  fix w :: world
  obtain nv' w' where p: "polled w w'"
    and c: "wait_available E d t nv v w = (Inr nv', w')
      \<or> (\<exists>e. wait_available E d t nv v w = (Inl e, w'))
      \<or> wait_available E d t nv v w = wait_failed E nv' v w'"
    using wait_available_cases by blast
  from p have same: "mig_log w' = mig_log w" by (simp add: polled_def)
  obtain xs where xs: "mig_log (snd (wait_failed E nv' v w')) = mig_log w' @ xs"
    "xs = [] \<or> xs = [(vol_id v, migration_status v, Some ''error'')]"
    using mig_log_wait_failed by blast
  then have lx: "list_all P xs" using assms by auto
  from c show "\<exists>zs. mig_log (snd (wait_available E d t nv v w)) = mig_log w @ zs \<and> list_all P zs"
  proof (elim disjE exE)
    assume "wait_available E d t nv v w = (Inr nv', w')"
    with same show ?thesis by simp
  next
    fix e assume "wait_available E d t nv v w = (Inl e, w')"
    with same show ?thesis by simp
  next
    assume "wait_available E d t nv v w = wait_failed E nv' v w'"
    with same xs(1) lx show ?thesis by auto
  qed
qed

lemma appends_mig_wait_step:
  "P (vol_id v, migration_status v, Some ''error'') \<Longrightarrow> (\<And>x. appends mig_log P (f x)) \<Longrightarrow>
   appends mig_log P (then_do (wait_available E d t nv v) f)"
  by (rule appends_then_do) (rule appends_mig_wait_available)

lemma appends_mig_initialize_remote:
  "appends mig_log (attach_edge volume) (initialize_remote E volume connector)"
  unfolding initialize_remote_def
  by ((rule appends_mig_set appends_mig_wait_step appends_mig_step appends_frame
       | simp add: attach_edge_def mig_frames is_target_def time_now_def
           split: option.split)+)

lemma appends_mig_initialize_connection:
  "appends mig_log (attach_edge volume) (initialize_connection E volume connector)"
proof -
  have local: "appends mig_log (attach_edge volume)
      (then_do (call E (DmCreate (dm_target_name volume) (linear_table E volume)))
         (\<lambda>_. ret volume))"
    by (rule appends_frame, rule mig_frame_then_do) (simp_all add: mig_frames)
  show ?thesis
    unfolding initialize_connection_def
    apply (rule appends_mig_step, simp add: mig_frames)
    apply (rule appends_mig_step, simp add: mig_frames)
    apply (rule appends_then_do)
     apply (simp add: local appends_mig_initialize_remote)
    apply (rule appends_ret)
    done
qed

subsection \<open>Creating\<close>

lemma mig_frame_try_block: "mig_log (snd (snd (try_block E v w))) = mig_log w"
  by (simp add: try_block_def create_overlay_def get_all_limit1_def get_connector_def
      then_do_def call_def ret_def Let_def
      split: option.split prod.split sum.split if_split)

lemma try_block_plain:
  "migration_status v \<noteq> Some ''starting'' \<Longrightarrow> migration_status v \<noteq> Some ''migrating'' \<Longrightarrow>
   fst (try_block E v w) = Inr ()"
  by (simp add: try_block_def create_overlay_def)

lemma mig_log_create_failed:
  "mig_log (snd (create_failed E volume loc e w))
     = mig_log w @ [(vol_id volume, migration_status volume, Some ''error'')]"
  by (simp add: create_failed_def then_do_def ret_def raise_def call_def save_def write_db_def
      set_migration_status_def Let_def split: option.split prod.split sum.split)

lemma new_migs_create_volume:
  "list_all (create_edge volume) (new_migs w (create_volume E volume w))"
proof (cases "raises E (trace w) (BaseCreateVolume (vol_id volume))")
  case (Some err)
  then show ?thesis by (simp add: new_migs_def create_volume_def call_def)
next
  case None
  let ?w0 = "w\<lparr>trace := trace w @ [BaseCreateVolume (vol_id volume)],
                  now := now w + elapse E (trace w) (BaseCreateVolume (vol_id volume))\<rparr>"
  obtain r loc w1 where tb: "try_block E volume ?w0 = (r, loc, w1)"
    by (cases "try_block E volume ?w0") auto
  have w1: "mig_log w1 = mig_log w"
    using mig_frame_try_block [of E volume ?w0] tb by simp
  show ?thesis
  proof (cases r)
    case (Inr u)
    with None tb w1 show ?thesis by (simp add: new_migs_def create_volume_def call_def)
  next
    case (Inl e)
    with tb have "migration_status volume = Some ''starting''
        \<or> migration_status volume = Some ''migrating''"
      using try_block_plain [of volume E ?w0] by auto
    with None tb Inl w1 show ?thesis
      by (auto simp: new_migs_def create_volume_def call_def mig_log_create_failed
          create_edge_def)
  qed
qed

subsection \<open>Detaching\<close>

lemma appends_then_do_res:
  assumes m: "appends g P m"
    and res: "\<And>w x w'. m w = (Inr x, w') \<Longrightarrow> R x"
    and f: "\<And>x. R x \<Longrightarrow> appends g P (f x)"
  shows "appends g P (then_do m f)"
proof (rule appendsI)
  fix w :: world
  obtain xs where xs: "g (snd (m w)) = g w @ xs" "list_all P xs"
    using appendsD [OF m] by blast
  obtain r w' where mw: "m w = (r, w')" by (cases "m w")
  show "\<exists>zs. g (snd (then_do m f w)) = g w @ zs \<and> list_all P zs"
  proof (cases r)
    case (Inl e)
    with mw xs show ?thesis by (auto simp: then_do_def)
  next
    case (Inr x)
    with mw have "R x" using res by blast
    then obtain ys where ys: "g (snd (f x w')) = g w' @ ys" "list_all P ys"
      using appendsD [OF f] by blast
    with mw Inr xs have "g (snd (then_do m f w)) = g w @ (xs @ ys)" "list_all P (xs @ ys)"
      by (simp_all add: then_do_def)
    then show ?thesis by blast
  qed
qed

lemma switch_volumes_result:
  "switch_volumes E v other w = (Inr p, w') \<Longrightarrow>
   vol_id (fst p) = vol_id v \<and> migration_status (fst p) = migration_status v"
  by (auto simp: switch_volumes_def then_do_def save_def call_def write_db_def ret_def
      raise_def switch_records_eq Let_def split: option.splits prod.splits sum.splits)

lemma find_src_volume_result:
  "find_src_volume E v w = (Inr (Some s), w') \<Longrightarrow> vol_id s = src_volume_id v"
  by (auto simp: find_src_volume_def get_by_id_def then_do_def call_def db_lookup_def
      src_volume_id_def find_Some_iff Let_def
      split: option.splits prod.splits sum.splits error.splits)

lemma appends_mig_rollback:
  assumes "is_target (migration_status volume)"
  shows "appends mig_log (detach_edge volume) (rollback E volume)"
  unfolding rollback_def
  apply (rule appends_mig_step, simp add: mig_frames)
  apply (rule appends_then_do_res [where R = "\<lambda>p. vol_id (fst p) = vol_id volume
      \<and> migration_status (fst p) = migration_status volume"])
    apply (rule appends_frame, simp add: mig_frames)
   apply (erule switch_volumes_result)
  apply ((rule appends_mig_set appends_mig_step appends_frame
      | simp add: detach_edge_def mig_frames assms)+)
  done

lemma appends_mig_start_hydration:
  "appends mig_log (detach_edge volume) (start_hydration E volume)"
  unfolding start_hydration_def
  apply (rule appends_then_do_res [where R = "\<lambda>src. \<forall>s. src = Some s \<longrightarrow> vol_id s = src_volume_id volume"])
    apply (rule appends_frame, simp add: mig_frames)
   apply (auto dest: find_src_volume_result)[1]
  apply (rule appends_mig_step, simp add: mig_frames)
  subgoal for src u
    by (cases src; simp)
       ((rule appends_mig_set appends_mig_step appends_frame
         | simp add: detach_edge_def mig_frames)+)
  done

lemma appends_mig_terminate_connection:
  "appends mig_log (detach_edge volume) (terminate_connection E volume connector)"
  unfolding terminate_connection_def
  by (auto simp: appends_raise appends_ret mig_frames appends_mig_rollback
        appends_mig_start_hydration
      intro!: appends_mig_step appends_ret
      split: option.split)

text \<open>None of these changes assigns \<^verbatim>\<open>starting\<close> or takes \<^verbatim>\<open>completing\<close> to \<^verbatim>\<open>error\<close>.\<close>

lemma edges_assign:
  "attach_edge volume (i, a, b) \<Longrightarrow> b \<noteq> Some ''starting'' \<and> \<not> (a = Some ''completing'' \<and> b = Some ''error'')"
  "create_edge volume (i, a, b) \<Longrightarrow> b \<noteq> Some ''starting'' \<and> \<not> (a = Some ''completing'' \<and> b = Some ''error'')"
  "detach_edge volume (i, a, b) \<Longrightarrow> b \<noteq> Some ''starting'' \<and> \<not> (a = Some ''completing'' \<and> b = Some ''error'')"
  "monitor_edge (i, a, b) \<Longrightarrow> b \<noteq> Some ''starting'' \<and> \<not> (a = Some ''completing'' \<and> b = Some ''error'')"
  by (auto simp: attach_edge_def create_edge_def detach_edge_def monitor_edge_def is_target_def)


text \<open>
  C3 (amended). Every assignment to \<^verbatim>\<open>migration_status\<close> that an operation of the driver
  makes is one of these: \<^verbatim>\<open>initialize_connection\<close> sets the origin, whatever value it
  has (none, but just as well \<^verbatim>\<open>starting\<close>), to \<^verbatim>\<open>target:X\<close> and, when the wait fails,
  from \<^verbatim>\<open>target:X\<close> to \<^verbatim>\<open>error\<close>; \<^verbatim>\<open>create_volume\<close> takes the volume from \<^verbatim>\<open>starting\<close>
  or \<^verbatim>\<open>migrating\<close> to \<^verbatim>\<open>error\<close>; \<^verbatim>\<open>terminate_connection\<close> takes the volume from
  \<^verbatim>\<open>target:X\<close> to none, or sets the record that the pointer names, whatever value it has
  (\<^verbatim>\<open>starting\<close>, but just as well none), to \<^verbatim>\<open>migrating\<close>; one tick of the monitor takes a
  record from \<^verbatim>\<open>target:X\<close> to \<^verbatim>\<open>completing\<close> and from \<^verbatim>\<open>completing\<close> to \<^verbatim>\<open>success\<close>.
  So no operation assigns \<^verbatim>\<open>starting\<close>, and none takes \<^verbatim>\<open>completing\<close> to \<^verbatim>\<open>error\<close>.
\<close>

theorem migration_status_changes:
  "list_all (attach_edge volume) (new_migs w (initialize_connection E volume connector w))
   \<and> list_all (create_edge volume) (new_migs w (create_volume E volume w))
   \<and> list_all (detach_edge volume) (new_migs w (terminate_connection E volume detaching w))
   \<and> list_all monitor_edge (new_migs w (migration_monitor E w))"
proof -
  have a: "list_all (attach_edge volume) (new_migs w (initialize_connection E volume connector w))"
    using appendsD [OF appends_mig_initialize_connection [of volume E connector], of w]
    by (auto simp: new_migs_def)
  have d: "list_all (detach_edge volume) (new_migs w (terminate_connection E volume detaching w))"
    using appendsD [OF appends_mig_terminate_connection [of volume E detaching], of w]
    by (auto simp: new_migs_def)
  have m: "list_all monitor_edge (new_migs w (migration_monitor E w))"
    using appendsD [OF appends_mig_migration_monitor [of E], of w]
    by (auto simp: new_migs_def)
  from a d m new_migs_create_volume show ?thesis by simp
qed

lemma rpc_down_migs:
  "new_migs (world_of [vol_a])
     (initialize_connection rpc_down_env vol_a [(''host'', ''hostB'')] (world_of [vol_a]))
   = [(''a1'', None, Some ''target:n1'')]"
  by (simp add: new_migs_def run_simps rpc_down_env_fields)

theorem migration_status_changes_witness:
  "new_migs (world_of [vol_a])
     (initialize_connection rpc_down_env vol_a [(''host'', ''hostB'')] (world_of [vol_a]))
   = [(''a1'', None, Some ''target:n1'')]
   \<and> attach_edge vol_a (''a1'', None, Some ''target:n1'')"
  using migration_status_changes [where volume = vol_a and w = "world_of [vol_a]"
      and E = rpc_down_env and connector = "[(''host'', ''hostB'')]" and detaching = None]
  by (simp add: rpc_down_migs)

text \<open>
  C3 as stated fails: attaching a volume that is not migrating sets its
  \<^verbatim>\<open>migration_status\<close> from none straight to \<^verbatim>\<open>target:n1\<close>, which is no edge of the
  graph of the specification.
\<close>

theorem migration_graph_counterexample:
  "new_migs (world_of [vol_a])
     (initialize_connection rpc_down_env vol_a [(''host'', ''hostB'')] (world_of [vol_a]))
   = [(''a1'', None, Some ''target:n1'')]
   \<and> \<not> spec_edge None (Some ''target:n1'')"
  by (simp add: rpc_down_migs spec_edge_def is_target_def)

section \<open>The bounded wait\<close>










section \<open>The pointer and the record it names\<close>









lemma keeps_frame:
  "(\<And>w. db_log (snd (m w)) = db_log w \<and> db (snd (m w)) = db w) \<Longrightarrow> keeps i m"
  by (simp add: keeps_def)




lemma keeps_call: "keeps i (call E e)"
  by (simp add: keeps_def call_def Let_def split: option.split)



lemma keeps_deadline:
  "keeps i (\<lambda>w. (Inr (fst (time_now w) + 60), snd (time_now w)))"
  by (simp add: keeps_def time_now_def)





















end
